theory Spec2Isabelle
  imports Complex_Main "HOL-Library.Word"
begin

section \<open>Engine primitives\<close>

text \<open>
  The three components (AC_AimComponent, AC_CombatComponent, BaseProjectile) are written
  against the engine's vector type and its actor framework. The engine is not part of the
  repository; what the components call of it is modelled here from the engine's documented
  behaviour. A \<open>float\<close> is idealised as a \<open>real\<close>: sums, products and comparisons are
  exact, so nothing below speaks about rounding.
\<close>

datatype FVector = FVector (X: real) (Y: real) (Z: real)

definition ZeroVector :: FVector where
  "ZeroVector = FVector 0 0 0"

definition ForwardVector :: FVector where
  "ForwardVector = FVector 1 0 0"

definition UpVector :: FVector where
  "UpVector = FVector 0 0 1"

definition VAdd :: "FVector \<Rightarrow> FVector \<Rightarrow> FVector" where
  "VAdd a b = FVector (X a + X b) (Y a + Y b) (Z a + Z b)"

definition VSub :: "FVector \<Rightarrow> FVector \<Rightarrow> FVector" where
  "VSub a b = FVector (X a - X b) (Y a - Y b) (Z a - Z b)"

definition VScale :: "FVector \<Rightarrow> real \<Rightarrow> FVector" where
  "VScale v s = FVector (X v * s) (Y v * s) (Z v * s)"

definition VNeg :: "FVector \<Rightarrow> FVector" where
  "VNeg v = FVector (- X v) (- Y v) (- Z v)"

definition DotProduct :: "FVector \<Rightarrow> FVector \<Rightarrow> real" where
  "DotProduct a b = X a * X b + Y a * Y b + Z a * Z b"

definition SizeSquared :: "FVector \<Rightarrow> real" where
  "SizeSquared v = X v * X v + Y v * Y v + Z v * Z v"

definition Size :: "FVector \<Rightarrow> real" where
  "Size v = sqrt (SizeSquared v)"

definition Dist :: "FVector \<Rightarrow> FVector \<Rightarrow> real" where
  "Dist a b = sqrt ((X b - X a) * (X b - X a) + (Y b - Y a) * (Y b - Y a)
                    + (Z b - Z a) * (Z b - Z a))"

definition SMALL_NUMBER :: real where
  "SMALL_NUMBER = 1 / 100000000"

definition KINDA_SMALL_NUMBER :: real where
  "KINDA_SMALL_NUMBER = 1 / 10000"

text \<open>
  \<open>FVector::GetSafeNormal()\<close> with its default tolerance: a vector of squared length 1 is
  returned as it is, one of squared length below \<open>SMALL_NUMBER\<close> gives the zero vector,
  any other is scaled by the inverse square root of its squared length.
\<close>

definition GetSafeNormal :: "FVector \<Rightarrow> FVector" where
  "GetSafeNormal v =
     (let SquareSum = X v * X v + Y v * Y v + Z v * Z v in
      if SquareSum = 1 then v
      else if SquareSum < SMALL_NUMBER then ZeroVector
      else (let Scale = 1 / sqrt SquareSum in
            FVector (X v * Scale) (Y v * Scale) (Z v * Scale)))"

text \<open>\<open>FVector::IsNearlyZero()\<close> with its default tolerance \<open>KINDA_SMALL_NUMBER\<close>.\<close>

definition IsNearlyZero :: "FVector \<Rightarrow> bool" where
  "IsNearlyZero v =
     (\<bar>X v\<bar> \<le> KINDA_SMALL_NUMBER \<and> \<bar>Y v\<bar> \<le> KINDA_SMALL_NUMBER
      \<and> \<bar>Z v\<bar> \<le> KINDA_SMALL_NUMBER)"

text \<open>
  Objects are referred to by identity. A pointer that may be null, and a weak pointer, is an
  \<open>option\<close>. \<open>FName\<close> is a string, \<open>NAME_None\<close> the name \<open>None\<close>.
\<close>

type_synonym actor = nat
type_synonym controller = nat
type_synonym projectile_class = nat
type_synonym FName = string

definition NAME_None :: FName where
  "NAME_None = ''None''"

text \<open>\<open>FGenericTeamId\<close> wraps a \<open>uint8\<close>; \<open>FGenericTeamId::NoTeam\<close> is 255.\<close>

type_synonym FGenericTeamId = "8 word"

definition NoTeam :: FGenericTeamId where
  "NoTeam = 255"

datatype ETeamAttitude = AttitudeFriendly | AttitudeNeutral | AttitudeHostile

text \<open>The fields of \<open>FHitResult\<close> that the components read or write.\<close>

record FHitResult =
  bBlockingHit :: bool
  bStartPenetrating :: bool
  Distance :: real
  Location :: FVector
  ImpactPoint :: FVector
  Normal :: FVector
  ImpactNormal :: FVector
  PhysMaterial :: "FName option"
  HitObjectActor :: "actor option"

definition IsValidBlockingHit :: "FHitResult \<Rightarrow> bool" where
  "IsValidBlockingHit h = (bBlockingHit h \<and> \<not> bStartPenetrating h)"

text \<open>The player controller's view, as \<open>PerformAimTrace\<close> queries it.\<close>

record APlayerController =
  ViewportSize :: "int \<times> int"
  DeprojectScreenPositionToWorld :: "real \<Rightarrow> real \<Rightarrow> (FVector \<times> FVector) option"
  PlayerViewPoint :: "FVector \<times> FVector"

section \<open>BaseProjectile: data\<close>

record UProjectileMovementComponent =
  Velocity :: FVector
  ComponentInitialSpeed :: real
  MaxSpeed :: real

text \<open>
  The projectile actor. \<open>ThisActor\<close> is its identity. \<open>OverlapBound\<close> says that
  \<open>OnOverlapBegin\<close> is bound to the collision sphere's begin-overlap delegate,
  \<open>LifetimeTimerSet\<close> that the lifetime timer is pending, \<open>IsDestroyed\<close> that
  \<open>Destroy()\<close> has run; \<open>IgnoreWhenMoving\<close> is the collision sphere's ignore list.
\<close>

record ABaseProjectile =
  ThisActor :: actor
  SpellElement :: FName
  Damage :: real
  InitialSpeed :: real
  LifetimeSeconds :: real
  CollisionRadius :: real
  ImpactNiagaraSystem :: bool
  ImpactCascadeSystem :: bool
  CollisionSphere :: bool
  ProjectileMovement :: "UProjectileMovementComponent option"
  IgnoreWhenMoving :: "actor list"
  CachedOwner :: "actor option"
  CachedInstigator :: "actor option"
  bDidHitSomething :: bool
  OverlapBound :: bool
  LifetimeTimerSet :: bool
  IsDestroyed :: bool

section \<open>The world as a component sees it\<close>

text \<open>
  Everything a component asks of the engine during one call: its owning actor, the clock,
  the actors' transforms, casts and team identities, the line trace and the spawn. A cast
  that fails and a query on an absent object give \<open>None\<close>.
\<close>

record world =
  Owner :: "actor option"
  HasWorld :: bool
  TimeSeconds :: real
  IsPawn :: "actor \<Rightarrow> bool"
  GetInstigator :: "actor \<Rightarrow> actor option"
  GetController :: "actor \<Rightarrow> controller option"
  PlayerControllerOf :: "actor \<Rightarrow> APlayerController option"
  GetActorLocation :: "actor \<Rightarrow> FVector"
  GetActorForwardVector :: "actor \<Rightarrow> FVector"
  GetActorRightVector :: "actor \<Rightarrow> FVector"
  ActorHasTag :: "actor \<Rightarrow> FName \<Rightarrow> bool"
  GenericTeamId :: "actor \<Rightarrow> FGenericTeamId option"
  TeamAttitudeTowards :: "actor \<Rightarrow> actor \<Rightarrow> ETeamAttitude"
  IsValidActor :: "actor \<Rightarrow> bool"
  LineTraceSingleByChannel :: "FVector \<Rightarrow> FVector \<Rightarrow> FHitResult option"
  SocketLocation :: "FName \<Rightarrow> FVector option"
  MuzzlePointLocation :: FVector
  SpawnActor :: "projectile_class \<Rightarrow> FVector \<Rightarrow> FVector \<Rightarrow> ABaseProjectile option"

text \<open>\<open>TWeakObjectPtr::Get()\<close>: null once the object is no longer valid.\<close>

definition WeakGet :: "world \<Rightarrow> actor option \<Rightarrow> actor option" where
  "WeakGet w p = (case p of None \<Rightarrow> None
                   | Some a \<Rightarrow> if IsValidActor w a then Some a else None)"

section \<open>AC_AimComponent\<close>

datatype EAimTraceResult = Nothing | World | Friendly | Enemy | Interactable | Self

record FAimTraceData =
  AimLocation :: FVector
  AimDirection :: FVector
  HitActor :: "actor option"
  TraceResult :: EAimTraceResult
  HitDistance :: real
  HitNormal :: FVector
  PhysicalSurface :: FName
  bDidHit :: bool
  Timestamp :: real

text \<open>The struct's default constructor.\<close>

definition FAimTraceData_default :: FAimTraceData where
  "FAimTraceData_default =
     \<lparr> AimLocation = ZeroVector, AimDirection = ForwardVector, HitActor = None,
       TraceResult = Nothing, HitDistance = 0, HitNormal = UpVector,
       PhysicalSurface = NAME_None, bDidHit = False, Timestamp = 0 \<rparr>"

datatype aim_event =
    OnAimTargetChanged "actor option" EAimTraceResult
  | OnAimLocationUpdated FVector FVector
  | OnAimBlocked bool

record UAC_AimComponent =
  MaxTraceDistance :: real
  CrosshairScreenPosition :: "real \<times> real"
  MinAimDistance :: real
  LocationUpdateThreshold :: real
  FriendlyActorTags :: "FName list"
  InteractableActorTags :: "FName list"
  bAutoUpdateOnTick :: bool
  AutoUpdateInterval :: real
  CachedAimData :: FAimTraceData
  PreviousTargetActor :: "actor option"
  PreviousAimLocation :: FVector
  bAimIsBlocked :: bool
  AutoUpdateTimer :: real

text \<open>The constructor's initialiser list; the tag arrays start empty.\<close>

definition UAC_AimComponent_ctor :: UAC_AimComponent where
  "UAC_AimComponent_ctor =
     \<lparr> MaxTraceDistance = 10000, CrosshairScreenPosition = (1 / 2, 1 / 2),
       MinAimDistance = 50, LocationUpdateThreshold = 10,
       FriendlyActorTags = [], InteractableActorTags = [],
       bAutoUpdateOnTick = False, AutoUpdateInterval = 5 / 100,
       CachedAimData = FAimTraceData_default, PreviousTargetActor = None,
       PreviousAimLocation = ZeroVector, bAimIsBlocked = False, AutoUpdateTimer = 0 \<rparr>"

text \<open>
  \<open>GetOwnerController\<close>: the owner's controller cast to a player controller when the
  owner is a pawn. The branch for a character is never reached with a different answer,
  a character being a pawn.
\<close>

definition GetOwnerController :: "world \<Rightarrow> APlayerController option" where
  "GetOwnerController w =
     (case Owner w of
        None \<Rightarrow> None
      | Some ow \<Rightarrow> if IsPawn w ow then PlayerControllerOf w ow else None)"

text \<open>The loop of \<open>ActorHasAnyTag\<close> over the tag array, and the function around it.\<close>

primrec AnyTagLoop :: "(FName \<Rightarrow> bool) \<Rightarrow> FName list \<Rightarrow> bool" where
  "AnyTagLoop has [] = False"
| "AnyTagLoop has (Tag # Tags) = (if has Tag then True else AnyTagLoop has Tags)"

definition ActorHasAnyTag :: "world \<Rightarrow> actor option \<Rightarrow> FName list \<Rightarrow> bool" where
  "ActorHasAnyTag w Actor Tags =
     (case Actor of
        None \<Rightarrow> False
      | Some a \<Rightarrow> if length Tags = 0 then False else AnyTagLoop (ActorHasTag w a) Tags)"

definition ClassifyHitActor ::
  "UAC_AimComponent \<Rightarrow> world \<Rightarrow> actor option \<Rightarrow> EAimTraceResult" where
  "ClassifyHitActor c w Hit =
     (case Hit of
        None \<Rightarrow> World
      | Some a \<Rightarrow>
          if ActorHasAnyTag w (Some a) (InteractableActorTags c) then Interactable
          else if ActorHasAnyTag w (Some a) (FriendlyActorTags c) then Friendly
          else
            (let OwnerTeam = (case Owner w of None \<Rightarrow> None | Some ow \<Rightarrow> GenericTeamId w ow);
                 TargetTeam = GenericTeamId w a
             in case (Owner w, OwnerTeam, TargetTeam) of
                  (Some ow, Some _, Some _) \<Rightarrow>
                    (case TeamAttitudeTowards w ow a of
                       AttitudeFriendly \<Rightarrow> Friendly
                     | AttitudeHostile \<Rightarrow> Enemy
                     | AttitudeNeutral \<Rightarrow> World)
                | _ \<Rightarrow> World))"

text \<open>
  The segment \<open>PerformAimTrace\<close> casts: from the camera through the crosshair for a player
  (the camera's location and forward vector when deprojection fails), from the owner's
  location along its forward vector otherwise.
\<close>

definition TraceSegment :: "UAC_AimComponent \<Rightarrow> world \<Rightarrow> actor \<Rightarrow> FVector \<times> FVector" where
  "TraceSegment c w ow =
     (case GetOwnerController w of
        Some PC \<Rightarrow>
          (let ScreenX = real_of_int (fst (ViewportSize PC)) * fst (CrosshairScreenPosition c);
               ScreenY = real_of_int (snd (ViewportSize PC)) * snd (CrosshairScreenPosition c)
           in case DeprojectScreenPositionToWorld PC ScreenX ScreenY of
                Some (WorldLoc, WorldDir) \<Rightarrow>
                  (WorldLoc, VAdd WorldLoc (VScale WorldDir (MaxTraceDistance c)))
              | None \<Rightarrow>
                  (let CamLoc = fst (PlayerViewPoint PC); CamDir = snd (PlayerViewPoint PC)
                   in (CamLoc, VAdd CamLoc (VScale CamDir (MaxTraceDistance c)))))
      | None \<Rightarrow>
          (let TraceStart = GetActorLocation w ow
           in (TraceStart,
               VAdd TraceStart (VScale (GetActorForwardVector w ow) (MaxTraceDistance c)))))"

definition PerformAimTrace :: "UAC_AimComponent \<Rightarrow> world \<Rightarrow> FAimTraceData" where
  "PerformAimTrace c w =
     (let OutData = FAimTraceData_default
                      \<lparr> Timestamp := (if HasWorld w then TimeSeconds w else 0) \<rparr>
      in case Owner w of
           None \<Rightarrow> OutData
         | Some ow \<Rightarrow>
             if \<not> HasWorld w then OutData
             else
               (let (TraceStart, TraceEnd) = TraceSegment c w ow;
                    Populated =
                      (case LineTraceSingleByChannel w TraceStart TraceEnd of
                         Some HitResult \<Rightarrow>
                           OutData
                             \<lparr> bDidHit := True,
                               AimLocation := ImpactPoint HitResult,
                               HitActor := HitObjectActor HitResult,
                               HitDistance := Distance HitResult,
                               HitNormal := ImpactNormal HitResult,
                               TraceResult := ClassifyHitActor c w (HitObjectActor HitResult),
                               PhysicalSurface :=
                                 (case PhysMaterial HitResult of
                                    Some n \<Rightarrow> n
                                  | None \<Rightarrow> PhysicalSurface OutData) \<rparr>
                       | None \<Rightarrow>
                           OutData
                             \<lparr> bDidHit := False,
                               AimLocation := TraceEnd,
                               HitActor := None,
                               HitDistance := MaxTraceDistance c,
                               HitNormal := UpVector,
                               TraceResult := Nothing \<rparr>)
                in Populated
                     \<lparr> AimDirection :=
                         GetSafeNormal (VSub (AimLocation Populated) (GetActorLocation w ow)) \<rparr>))"

text \<open>
  \<open>BroadcastChanges\<close> compares the new data with the remembered target and the remembered
  location; its parameter \<open>OldData\<close> is not read.
\<close>

definition BroadcastChanges ::
  "UAC_AimComponent \<Rightarrow> world \<Rightarrow> FAimTraceData \<Rightarrow> FAimTraceData
     \<Rightarrow> UAC_AimComponent \<times> aim_event list" where
  "BroadcastChanges c w OldData NewData =
     (let OldTarget = WeakGet w (PreviousTargetActor c);
          NewTarget = HitActor NewData;
          (c1, ev1) =
            (if OldTarget \<noteq> NewTarget
             then (c\<lparr> PreviousTargetActor := NewTarget \<rparr>,
                   [OnAimTargetChanged NewTarget (TraceResult NewData)])
             else (c, []));
          LocationDelta = Dist (PreviousAimLocation c1) (AimLocation NewData)
      in if LocationDelta > LocationUpdateThreshold c1
         then (c1\<lparr> PreviousAimLocation := AimLocation NewData \<rparr>,
               ev1 @ [OnAimLocationUpdated (AimLocation NewData) (AimDirection NewData)])
         else (c1, ev1))"

definition RequestAimUpdate ::
  "UAC_AimComponent \<Rightarrow> world \<Rightarrow> UAC_AimComponent \<times> aim_event list \<times> FAimTraceData" where
  "RequestAimUpdate c w =
     (if Owner w = None \<or> \<not> HasWorld w then (c, [], CachedAimData c)
      else
        (let OldData = CachedAimData c;
             c1 = c\<lparr> CachedAimData := PerformAimTrace c w \<rparr>;
             bWasBlocked = bAimIsBlocked c1;
             c2 = c1\<lparr> bAimIsBlocked :=
                        (bDidHit (CachedAimData c1)
                         \<and> HitDistance (CachedAimData c1) < MinAimDistance c1) \<rparr>;
             ev1 = (if bWasBlocked \<noteq> bAimIsBlocked c2 then [OnAimBlocked (bAimIsBlocked c2)]
                    else []);
             (c3, ev2) = BroadcastChanges c2 w OldData (CachedAimData c2)
         in (c3, ev1 @ ev2, CachedAimData c3)))"

text \<open>\<open>BeginPlay\<close>: the initial trace that fills the cache and the remembered values.\<close>

definition AimBeginPlay :: "UAC_AimComponent \<Rightarrow> world \<Rightarrow> UAC_AimComponent" where
  "AimBeginPlay c w =
     (if Owner w = None then c
      else
        (let c1 = c\<lparr> CachedAimData := PerformAimTrace c w \<rparr>
         in c1\<lparr> PreviousAimLocation := AimLocation (CachedAimData c1),
                PreviousTargetActor := HitActor (CachedAimData c1) \<rparr>))"

definition GetAimDirectionFromLocation ::
  "UAC_AimComponent \<Rightarrow> world \<Rightarrow> FVector \<Rightarrow> FVector" where
  "GetAimDirectionFromLocation c w StartLocation =
     (let AimPoint = AimLocation (CachedAimData c);
          Direction = GetSafeNormal (VSub AimPoint StartLocation)
      in case Owner w of
           Some ow \<Rightarrow>
             (let Dot = DotProduct Direction (GetActorForwardVector w ow)
              in if IsNearlyZero Direction \<or> Dot < 1 / 10 then GetActorForwardVector w ow
                 else Direction)
         | None \<Rightarrow> Direction)"

text \<open>
  Repeated calls of \<open>RequestAimUpdate\<close>, one world per call, with the delegates each call
  broadcast; and the notifications of each kind among them.
\<close>

fun IsTargetChanged :: "aim_event \<Rightarrow> bool" where
  "IsTargetChanged (OnAimTargetChanged _ _) = True"
| "IsTargetChanged _ = False"

fun IsLocationUpdated :: "aim_event \<Rightarrow> bool" where
  "IsLocationUpdated (OnAimLocationUpdated _ _) = True"
| "IsLocationUpdated _ = False"

fun RequestAimUpdates ::
  "UAC_AimComponent \<Rightarrow> world list \<Rightarrow> UAC_AimComponent \<times> aim_event list list" where
  "RequestAimUpdates c [] = (c, [])"
| "RequestAimUpdates c (w # ws) =
     (let (c1, evs, d) = RequestAimUpdate c w;
          (c2, rest) = RequestAimUpdates c1 ws
      in (c2, evs # rest))"

definition CountTargetChanged :: "aim_event list \<Rightarrow> nat" where
  "CountTargetChanged evs = length (filter IsTargetChanged evs)"

definition CountLocationUpdated :: "aim_event list \<Rightarrow> nat" where
  "CountLocationUpdated evs = length (filter IsLocationUpdated evs)"

section \<open>BaseProjectile\<close>

text \<open>
  What the projectile does to the world around it: the damage call on the struck actor
  (amount, instigating controller, damage causer), the impact effect it spawns, and the two
  delegates it broadcasts.
\<close>

datatype projectile_effect =
    TakeDamage actor real "controller option" "actor option"
  | ImpactNiagara FVector FVector
  | ImpactCascade FVector FVector
  | OnProjectileHit "actor option" FHitResult
  | OnProjectileDestroyed bool

text \<open>The constructor: the initialiser list and the components it creates.\<close>

definition ABaseProjectile_ctor :: "actor \<Rightarrow> ABaseProjectile" where
  "ABaseProjectile_ctor this =
     \<lparr> ThisActor = this, SpellElement = ''Flame'', Damage = 15, InitialSpeed = 3000,
       LifetimeSeconds = 5, CollisionRadius = 15,
       ImpactNiagaraSystem = False, ImpactCascadeSystem = False,
       CollisionSphere = True,
       ProjectileMovement =
         Some \<lparr> Velocity = ZeroVector, ComponentInitialSpeed = 3000, MaxSpeed = 3000 \<rparr>,
       IgnoreWhenMoving = [], CachedOwner = None, CachedInstigator = None,
       bDidHitSomething = False, OverlapBound = False, LifetimeTimerSet = False,
       IsDestroyed = False \<rparr>"

text \<open>
  \<open>BeginPlay\<close> binds the overlap handler and starts the lifetime timer. Colouring the mesh
  and starting the trail touch nothing the model holds.
\<close>

definition ProjectileBeginPlay :: "ABaseProjectile \<Rightarrow> ABaseProjectile" where
  "ProjectileBeginPlay p = p\<lparr> OverlapBound := True, LifetimeTimerSet := True \<rparr>"

text \<open>
  \<open>EndPlay\<close> clears the timer, broadcasts the destruction with the hit flag and removes
  the overlap binding when the collision sphere exists.
\<close>

definition EndPlay :: "ABaseProjectile \<Rightarrow> ABaseProjectile \<times> projectile_effect list" where
  "EndPlay p =
     (let p1 = p\<lparr> LifetimeTimerSet := False \<rparr>;
          ev = [OnProjectileDestroyed (bDidHitSomething p1)];
          p2 = (if CollisionSphere p1 then p1\<lparr> OverlapBound := False \<rparr> else p1)
      in (p2, ev))"

text \<open>
  The engine's \<open>AActor::Destroy()\<close>: on an actor not yet destroyed it runs \<open>EndPlay\<close>
  before it returns; on a destroyed actor it does nothing.
\<close>

definition Destroy :: "ABaseProjectile \<Rightarrow> ABaseProjectile \<times> projectile_effect list" where
  "Destroy p =
     (if IsDestroyed p then (p, [])
      else (let (p1, ev) = EndPlay p in (p1\<lparr> IsDestroyed := True \<rparr>, ev)))"

definition InitializeProjectile ::
  "ABaseProjectile \<Rightarrow> world \<Rightarrow> actor option \<Rightarrow> FVector \<Rightarrow> ABaseProjectile" where
  "InitializeProjectile p w OwningActor LaunchDirection =
     (let p1 = p\<lparr> CachedOwner := OwningActor \<rparr>;
          p2 = (case OwningActor of
                  None \<Rightarrow> p1
                | Some oa \<Rightarrow>
                    if IsPawn w oa then p1\<lparr> CachedInstigator := Some oa \<rparr>
                    else p1\<lparr> CachedInstigator := GetInstigator w oa \<rparr>);
          p3 = (case OwningActor of
                  None \<Rightarrow> p2
                | Some oa \<Rightarrow>
                    if CollisionSphere p2
                    then p2\<lparr> IgnoreWhenMoving := IgnoreWhenMoving p2 @ [oa] \<rparr>
                    else p2);
          p4 = (case WeakGet w (CachedInstigator p3) of
                  None \<Rightarrow> p3
                | Some inst \<Rightarrow>
                    if Some inst \<noteq> OwningActor \<and> CollisionSphere p3
                    then p3\<lparr> IgnoreWhenMoving := IgnoreWhenMoving p3 @ [inst] \<rparr>
                    else p3)
      in case ProjectileMovement p4 of
           None \<Rightarrow> p4
         | Some m \<Rightarrow>
             (let NormalizedDirection = GetSafeNormal LaunchDirection
              in p4\<lparr> ProjectileMovement :=
                       Some (m\<lparr> Velocity := VScale NormalizedDirection (InitialSpeed p4) \<rparr>) \<rparr>))"

definition IsFriendlyActor :: "ABaseProjectile \<Rightarrow> world \<Rightarrow> actor option \<Rightarrow> bool" where
  "IsFriendlyActor p w OtherActor =
     (case OtherActor of
        None \<Rightarrow> False
      | Some other \<Rightarrow>
          (let OwnerTeam =
                 (case WeakGet w (CachedOwner p) of
                    None \<Rightarrow> NoTeam
                  | Some ow \<Rightarrow> (case GenericTeamId w ow of None \<Rightarrow> NoTeam | Some t \<Rightarrow> t))
           in case GenericTeamId w other of
                None \<Rightarrow> False
              | Some OtherTeam \<Rightarrow>
                  if OwnerTeam = NoTeam \<or> OtherTeam = NoTeam then False
                  else OwnerTeam = OtherTeam))"

definition ApplyDamage ::
  "ABaseProjectile \<Rightarrow> world \<Rightarrow> actor option \<Rightarrow> FHitResult \<Rightarrow> projectile_effect list" where
  "ApplyDamage p w Hit HitResult =
     (case Hit of
        None \<Rightarrow> []
      | Some h \<Rightarrow>
          if Damage p \<le> 0 then []
          else
            (let InstigatorController =
                   (case WeakGet w (CachedInstigator p) of
                      None \<Rightarrow> None
                    | Some inst \<Rightarrow> GetController w inst)
             in [TakeDamage h (Damage p) InstigatorController (WeakGet w (CachedOwner p))]))"

definition SpawnImpactEffect ::
  "ABaseProjectile \<Rightarrow> FVector \<Rightarrow> FVector \<Rightarrow> projectile_effect list" where
  "SpawnImpactEffect p Loc Nrm =
     (if ImpactNiagaraSystem p then [ImpactNiagara Loc Nrm]
      else if ImpactCascadeSystem p then [ImpactCascade Loc Nrm]
      else [])"

definition HandleHit ::
  "ABaseProjectile \<Rightarrow> world \<Rightarrow> actor option \<Rightarrow> FHitResult
     \<Rightarrow> ABaseProjectile \<times> projectile_effect list" where
  "HandleHit p w Hit HitResult =
     (let ev1 = (if Hit \<noteq> None then ApplyDamage p w Hit HitResult else []);
          ev2 = SpawnImpactEffect p (ImpactPoint HitResult) (ImpactNormal HitResult);
          ev3 = [OnProjectileHit Hit HitResult];
          (p1, ev4) = Destroy p
      in (p1, ev1 @ ev2 @ ev3 @ ev4))"

text \<open>
  \<open>OnOverlapBegin\<close>. \<open>OtherCompLocation\<close> is the location of the other component when the
  overlap names one.
\<close>

definition OnOverlapBegin ::
  "ABaseProjectile \<Rightarrow> world \<Rightarrow> actor option \<Rightarrow> FVector option \<Rightarrow> FHitResult
     \<Rightarrow> ABaseProjectile \<times> projectile_effect list" where
  "OnOverlapBegin p w OtherActor OtherCompLocation SweepResult =
     (case OtherActor of
        None \<Rightarrow> (p, [])
      | Some other \<Rightarrow>
          if other = ThisActor p then (p, [])
          else if Some other = WeakGet w (CachedOwner p)
                  \<or> Some other = WeakGet w (CachedInstigator p) then (p, [])
          else if IsFriendlyActor p w (Some other) then (p, [])
          else
            (let HitResult =
                   (if \<not> IsValidBlockingHit SweepResult
                    then SweepResult
                           \<lparr> ImpactPoint :=
                               (case OtherCompLocation of
                                  Some l \<Rightarrow> l
                                | None \<Rightarrow> GetActorLocation w other),
                             ImpactNormal := VNeg (GetActorForwardVector w (ThisActor p)),
                             Location := GetActorLocation w (ThisActor p),
                             Normal := VNeg (GetActorForwardVector w (ThisActor p)) \<rparr>
                    else SweepResult);
                 p1 = p\<lparr> bDidHitSomething := True \<rparr>
             in HandleHit p1 w (Some other) HitResult))"

definition OnLifetimeExpired :: "ABaseProjectile \<Rightarrow> ABaseProjectile \<times> projectile_effect list" where
  "OnLifetimeExpired p = Destroy p"

text \<open>
  What can reach a projectile from outside, and how it is delivered: an overlap reaches
  \<open>OnOverlapBegin\<close> only while the handler is bound to the delegate, the expiry reaches
  \<open>OnLifetimeExpired\<close> only while the timer is pending, and another actor may call
  \<open>Destroy()\<close> on the projectile (QuidditchGoal does, on the projectile that scores).
  Each signal comes with the world as it is when the signal is raised.
\<close>

datatype projectile_signal =
    Overlap "actor option" "FVector option" FHitResult
  | LifetimeExpired
  | DestroyedByOther

definition Deliver ::
  "ABaseProjectile \<Rightarrow> world \<Rightarrow> projectile_signal
     \<Rightarrow> ABaseProjectile \<times> projectile_effect list" where
  "Deliver p w s =
     (case s of
        Overlap OtherActor OtherCompLocation SweepResult \<Rightarrow>
          if OverlapBound p then OnOverlapBegin p w OtherActor OtherCompLocation SweepResult
          else (p, [])
      | LifetimeExpired \<Rightarrow>
          if LifetimeTimerSet p then OnLifetimeExpired p else (p, [])
      | DestroyedByOther \<Rightarrow> Destroy p)"

fun DeliverAll ::
  "ABaseProjectile \<Rightarrow> (world \<times> projectile_signal) list
     \<Rightarrow> ABaseProjectile \<times> projectile_effect list" where
  "DeliverAll p [] = (p, [])"
| "DeliverAll p ((w, s) # rest) =
     (let (p1, ev1) = Deliver p w s;
          (p2, ev2) = DeliverAll p1 rest
      in (p2, ev1 @ ev2))"

text \<open>Counting what a run published.\<close>

fun IsDamage :: "projectile_effect \<Rightarrow> bool" where
  "IsDamage (TakeDamage _ _ _ _) = True"
| "IsDamage _ = False"

fun IsHitEvent :: "projectile_effect \<Rightarrow> bool" where
  "IsHitEvent (OnProjectileHit _ _) = True"
| "IsHitEvent _ = False"

fun IsDestroyedEvent :: "projectile_effect \<Rightarrow> bool" where
  "IsDestroyedEvent (OnProjectileDestroyed _) = True"
| "IsDestroyedEvent _ = False"

text \<open>
  An overlap candidate qualifies when none of the guards of \<open>OnOverlapBegin\<close> lets it
  pass: it is not the projectile, not the launcher, not the instigator, and not friendly.
\<close>

definition Qualifies :: "ABaseProjectile \<Rightarrow> world \<Rightarrow> actor \<Rightarrow> bool" where
  "Qualifies p w other =
     (other \<noteq> ThisActor p \<and> Some other \<noteq> WeakGet w (CachedOwner p)
      \<and> Some other \<noteq> WeakGet w (CachedInstigator p) \<and> \<not> IsFriendlyActor p w (Some other))"

section \<open>AC_CombatComponent\<close>

datatype EFireBlockedReason =
  OnCooldown | NoProjectileClass | AimBlocked | NoAimComponent | SpawnFailed | Custom

datatype combat_event =
    OnProjectileFired ABaseProjectile FName FVector
  | OnFireBlocked EFireBlockedReason FName
  | OnCooldownStateChanged bool real

text \<open>
  \<open>AimComponent\<close> holds the aim component the pointer refers to; \<open>MuzzlePointComponent\<close>
  says whether the muzzle point was created. \<open>ProjectileClassMap\<close> is the \<open>TMap\<close>: a name
  may be absent, or present with a null class.
\<close>

record UAC_CombatComponent =
  MuzzleSocketName :: FName
  MuzzleOffset :: FVector
  FireCooldown :: real
  bRespectAimBlocked :: bool
  DefaultProjectileClass :: "projectile_class option"
  ProjectileClassMap :: "FName \<Rightarrow> projectile_class option option"
  MuzzlePointComponent :: bool
  AimComponent :: "UAC_AimComponent option"
  LastFireTime :: real
  bWasOnCooldown :: bool

definition UAC_CombatComponent_ctor :: UAC_CombatComponent where
  "UAC_CombatComponent_ctor =
     \<lparr> MuzzleSocketName = ''MuzzleSocket'', MuzzleOffset = FVector 60 0 70,
       FireCooldown = 1 / 2, bRespectAimBlocked = True, DefaultProjectileClass = None,
       ProjectileClassMap = (\<lambda>n. None), MuzzlePointComponent = False,
       AimComponent = None, LastFireTime = - 1000, bWasOnCooldown = False \<rparr>"

definition CalculateMuzzleLocation :: "UAC_CombatComponent \<Rightarrow> world \<Rightarrow> FVector" where
  "CalculateMuzzleLocation c w =
     (case Owner w of
        None \<Rightarrow> ZeroVector
      | Some ow \<Rightarrow>
          (case SocketLocation w (MuzzleSocketName c) of
             Some l \<Rightarrow> l
           | None \<Rightarrow>
               if MuzzlePointComponent c then MuzzlePointLocation w
               else VAdd (VAdd (VAdd (GetActorLocation w ow)
                                     (VScale (GetActorForwardVector w ow) (X (MuzzleOffset c))))
                               (VScale (GetActorRightVector w ow) (Y (MuzzleOffset c))))
                         (VScale UpVector (Z (MuzzleOffset c)))))"

text \<open>
  \<open>SpawnProjectileInternal\<close> returns the projectile (or null), and leaves behind the
  component, the combat delegates broadcast, and the aim delegates broadcast by the aim
  update it requests. The engine's spawn is given the class, the location and the
  direction the spawn rotation is made from.
\<close>

definition SpawnProjectileInternal ::
  "UAC_CombatComponent \<Rightarrow> world \<Rightarrow> projectile_class option \<Rightarrow> FName
     \<Rightarrow> ABaseProjectile option \<times> UAC_CombatComponent \<times> combat_event list \<times> aim_event list"
  where
  "SpawnProjectileInternal c w ProjectileClass TypeName =
     (case (HasWorld w, Owner w) of
        (True, Some ow) \<Rightarrow>
          (case ProjectileClass of
             None \<Rightarrow> (None, c, [OnFireBlocked NoProjectileClass TypeName], [])
           | Some cls \<Rightarrow>
               (let CurrentTime = TimeSeconds w in
                if CurrentTime - LastFireTime c < FireCooldown c
                then (None, c, [OnFireBlocked OnCooldown TypeName], [])
                else if bRespectAimBlocked c
                        \<and> (case AimComponent c of Some a \<Rightarrow> bAimIsBlocked a | None \<Rightarrow> False)
                then (None, c, [OnFireBlocked AimBlocked TypeName], [])
                else
                  (let SpawnLocation = CalculateMuzzleLocation c w;
                       (aim1, aev, FireDirection) =
                         (case AimComponent c of
                            Some a \<Rightarrow>
                              (let (a1, ev, d) = RequestAimUpdate a w
                               in (Some a1, ev, GetAimDirectionFromLocation a1 w SpawnLocation))
                          | None \<Rightarrow> (None, [], GetActorForwardVector w ow));
                       c1 = c\<lparr> AimComponent := aim1 \<rparr>
                   in case SpawnActor w cls SpawnLocation FireDirection of
                        None \<Rightarrow> (None, c1, [OnFireBlocked SpawnFailed TypeName], aev)
                      | Some Spawned \<Rightarrow>
                          (let P1 = InitializeProjectile Spawned w (Owner w) FireDirection;
                               P2 = (case ProjectileMovement P1 of
                                       None \<Rightarrow> P1
                                     | Some m \<Rightarrow>
                                         P1\<lparr> ProjectileMovement :=
                                               Some (m\<lparr> Velocity :=
                                                          VScale FireDirection
                                                            (ComponentInitialSpeed m) \<rparr>) \<rparr>);
                               c2 = c1\<lparr> LastFireTime := CurrentTime, bWasOnCooldown := True \<rparr>
                           in (Some P2, c2,
                               [OnCooldownStateChanged True (FireCooldown c2),
                                OnProjectileFired P2 TypeName FireDirection],
                               aev)))))
      | _ \<Rightarrow> (None, c, [OnFireBlocked SpawnFailed TypeName], []))"

definition FireProjectileClass ::
  "UAC_CombatComponent \<Rightarrow> world \<Rightarrow> projectile_class option
     \<Rightarrow> ABaseProjectile option \<times> UAC_CombatComponent \<times> combat_event list \<times> aim_event list"
  where
  "FireProjectileClass c w ProjectileClass = SpawnProjectileInternal c w ProjectileClass NAME_None"

definition FireProjectile ::
  "UAC_CombatComponent \<Rightarrow> world
     \<Rightarrow> ABaseProjectile option \<times> UAC_CombatComponent \<times> combat_event list \<times> aim_event list"
  where
  "FireProjectile c w = FireProjectileClass c w (DefaultProjectileClass c)"

text \<open>
  \<open>FireProjectileByType\<close>. When the map has no class for the name, the warning written
  before the broadcast reads the owner's name through \<open>GetOwner()\<close> without a null check:
  on a component without owner the call ends there, in a null dereference, and nothing is
  broadcast or returned.
\<close>

datatype fault = NullOwnerDereference

definition FireProjectileByType ::
  "UAC_CombatComponent \<Rightarrow> world \<Rightarrow> FName
     \<Rightarrow> fault + (ABaseProjectile option \<times> UAC_CombatComponent \<times> combat_event list
                \<times> aim_event list)"
  where
  "FireProjectileByType c w TypeName =
     (case ProjectileClassMap c TypeName of
        Some (Some cls) \<Rightarrow> Inr (SpawnProjectileInternal c w (Some cls) TypeName)
      | _ \<Rightarrow>
          (case Owner w of
             None \<Rightarrow> Inl NullOwnerDereference
           | Some ow \<Rightarrow> Inr (None, c, [OnFireBlocked NoProjectileClass TypeName], [])))"

text \<open>
  The reasons a dispatch may give for a rejection: every value of the enumeration but
  \<open>Custom\<close>.
\<close>

definition RejectionReasons :: "EFireBlockedReason set" where
  "RejectionReasons = {OnCooldown, NoProjectileClass, AimBlocked, NoAimComponent, SpawnFailed}"

section \<open>Example situations\<close>

text \<open>Concrete worlds and components on which the properties below are exercised.\<close>

definition QuietWorld :: world where
  "QuietWorld =
     \<lparr> Owner = Some 10, HasWorld = True, TimeSeconds = 0,
       IsPawn = (\<lambda>a. False), GetInstigator = (\<lambda>a. None), GetController = (\<lambda>a. None),
       PlayerControllerOf = (\<lambda>a. None),
       GetActorLocation = (\<lambda>a. ZeroVector), GetActorForwardVector = (\<lambda>a. ForwardVector),
       GetActorRightVector = (\<lambda>a. FVector 0 1 0),
       ActorHasTag = (\<lambda>a t. False), GenericTeamId = (\<lambda>a. None),
       TeamAttitudeTowards = (\<lambda>a b. AttitudeNeutral), IsValidActor = (\<lambda>a. True),
       LineTraceSingleByChannel = (\<lambda>s e. None),
       SocketLocation = (\<lambda>n. None), MuzzlePointLocation = FVector 60 0 70,
       SpawnActor = (\<lambda>cls loc dir. Some (ProjectileBeginPlay (ABaseProjectile_ctor 100))) \<rparr>"

definition PenetratingWorld :: world where
  "PenetratingWorld =
     QuietWorld
       \<lparr> LineTraceSingleByChannel :=
           (\<lambda>s e. Some \<lparr> bBlockingHit = True, bStartPenetrating = True, Distance = 0,
                          Location = s, ImpactPoint = s, Normal = UpVector,
                          ImpactNormal = UpVector, PhysMaterial = None,
                          HitObjectActor = Some 2 \<rparr>) \<rparr>"

definition TaggedAim :: UAC_AimComponent where
  "TaggedAim =
     UAC_AimComponent_ctor
       \<lparr> InteractableActorTags := [''Pickup''], FriendlyActorTags := [''Ally''] \<rparr>"

definition TeamWorld :: world where
  "TeamWorld =
     QuietWorld
       \<lparr> ActorHasTag :=
           (\<lambda>a t. (a = 2 \<and> (t = ''Pickup'' \<or> t = ''Ally'')) \<or> (a = 3 \<and> t = ''Ally'')),
         GenericTeamId :=
           (\<lambda>a. if a = 10 \<or> a = 4 then Some 1 else if a = 6 then None else Some 2),
         TeamAttitudeTowards :=
           (\<lambda>a b. if b = 4 then AttitudeFriendly
                   else if b = 7 then AttitudeNeutral else AttitudeHostile) \<rparr>"

definition LookUpController :: APlayerController where
  "LookUpController =
     \<lparr> ViewportSize = (1920, 1080),
       DeprojectScreenPositionToWorld =
         (\<lambda>x y. Some (ZeroVector, FVector (21 / 221) 0 (220 / 221))),
       PlayerViewPoint = (ZeroVector, FVector (21 / 221) 0 (220 / 221)) \<rparr>"

definition LookUpWorld :: world where
  "LookUpWorld =
     QuietWorld \<lparr> IsPawn := (\<lambda>a. True), PlayerControllerOf := (\<lambda>a. Some LookUpController) \<rparr>"

definition ShortAim :: UAC_AimComponent where
  "ShortAim = UAC_AimComponent_ctor \<lparr> MaxTraceDistance := 221 \<rparr>"

definition ScenarioB_Aim :: UAC_AimComponent where
  "ScenarioB_Aim =
     UAC_AimComponent_ctor
       \<lparr> CachedAimData := FAimTraceData_default \<lparr> AimLocation := FVector 1000 0 0 \<rparr> \<rparr>"

definition DriftWorld :: "real \<Rightarrow> world" where
  "DriftWorld x = QuietWorld \<lparr> GetActorLocation := (\<lambda>a. FVector x 0 0) \<rparr>"

definition DriftStart :: UAC_AimComponent where
  "DriftStart = AimBeginPlay UAC_AimComponent_ctor (DriftWorld (- 10000))"

definition NoSweep :: FHitResult where
  "NoSweep =
     \<lparr> bBlockingHit = False, bStartPenetrating = False, Distance = 0,
       Location = ZeroVector, ImpactPoint = ZeroVector, Normal = ZeroVector,
       ImpactNormal = ZeroVector, PhysMaterial = None, HitObjectActor = None \<rparr>"

definition LiveProjectile :: ABaseProjectile where
  "LiveProjectile =
     InitializeProjectile (ProjectileBeginPlay (ABaseProjectile_ctor 100)) QuietWorld (Some 10)
       ForwardVector"

definition FriendlyShot :: ABaseProjectile where
  "FriendlyShot =
     InitializeProjectile (ProjectileBeginPlay (ABaseProjectile_ctor 100)) TeamWorld (Some 10)
       ForwardVector"

definition ReadyCombat :: UAC_CombatComponent where
  "ReadyCombat =
     UAC_CombatComponent_ctor
       \<lparr> DefaultProjectileClass := Some 1,
         ProjectileClassMap := (\<lambda>n. if n = ''Flame'' then Some (Some 1) else None),
         MuzzlePointComponent := True \<rparr>"

definition AtTime :: "real \<Rightarrow> world" where
  "AtTime t = QuietWorld \<lparr> TimeSeconds := t \<rparr>"

definition CoolingCombat :: UAC_CombatComponent where
  "CoolingCombat = fst (snd (SpawnProjectileInternal ReadyCombat (AtTime 0) (Some 1) ''Flame''))"

definition OwnerlessWorld :: world where
  "OwnerlessWorld = QuietWorld \<lparr> Owner := None \<rparr>"

definition DeadLauncherWorld :: world where
  "DeadLauncherWorld = TeamWorld \<lparr> IsValidActor := (\<lambda>a. a \<noteq> 10) \<rparr>"

definition UncachedShot :: ABaseProjectile where
  "UncachedShot = ProjectileBeginPlay (ABaseProjectile_ctor 100)"

section \<open>Properties\<close>

subsection \<open>Vectors and tags\<close>

lemma FVector_eq_iff: "(a = b) = (X a = X b \<and> Y a = Y b \<and> Z a = Z b)"
  by (cases a; cases b) simp

lemma GetSafeNormal_unit:
  assumes "SMALL_NUMBER \<le> SizeSquared v"
  shows "Size (GetSafeNormal v) = 1"
proof -
  let ?s = "X v * X v + Y v * Y v + Z v * Z v"
  have s: "?s = SizeSquared v" by (simp add: SizeSquared_def)
  have pos: "0 < ?s" using assms s by (simp add: SMALL_NUMBER_def)
  show ?thesis
  proof (cases "?s = 1")
    case True
    then show ?thesis by (simp add: GetSafeNormal_def Size_def SizeSquared_def)
  next
    case False
    have nlt: "\<not> ?s < SMALL_NUMBER" using assms s by simp
    define k where "k = 1 / sqrt ?s"
    have kk: "k * k = 1 / ?s" using pos by (simp add: k_def)
    have "GetSafeNormal v = FVector (X v * k) (Y v * k) (Z v * k)"
      using False nlt by (simp add: GetSafeNormal_def Let_def k_def)
    then have "SizeSquared (GetSafeNormal v) = ?s * (k * k)"
      by (simp add: SizeSquared_def algebra_simps)
    also have "\<dots> = 1" using pos by (simp add: kk)
    finally show ?thesis by (simp add: Size_def)
  qed
qed

lemma GetSafeNormal_small:
  "SizeSquared v < SMALL_NUMBER \<Longrightarrow> GetSafeNormal v = ZeroVector"
  by (simp add: GetSafeNormal_def SizeSquared_def SMALL_NUMBER_def Let_def)

lemma Size_Zero: "Size ZeroVector = 0"
  by (simp add: Size_def SizeSquared_def ZeroVector_def)

lemma AnyTagLoop_iff: "AnyTagLoop has Tags = (\<exists>t \<in> set Tags. has t)"
  by (induction Tags) auto

lemma ActorHasAnyTag_iff:
  "ActorHasAnyTag w (Some a) Tags = (\<exists>t \<in> set Tags. ActorHasTag w a t)"
  by (cases Tags) (simp_all add: ActorHasAnyTag_def AnyTagLoop_iff)

subsection \<open>The aim trace\<close>

lemma BroadcastChanges_keeps:
  assumes "BroadcastChanges c w od nd = (c1, ev)"
  shows "CachedAimData c1 = CachedAimData c"
    and "LocationUpdateThreshold c1 = LocationUpdateThreshold c"
    and "MaxTraceDistance c1 = MaxTraceDistance c"
    and "CrosshairScreenPosition c1 = CrosshairScreenPosition c"
    and "FriendlyActorTags c1 = FriendlyActorTags c"
    and "InteractableActorTags c1 = InteractableActorTags c"
    and "MinAimDistance c1 = MinAimDistance c"
    and "bAimIsBlocked c1 = bAimIsBlocked c"
  using assms
  by (auto simp add: BroadcastChanges_def Let_def split: prod.splits if_splits)

lemma RequestAimUpdate_data:
  assumes "Owner w = Some ow" and "HasWorld w"
  shows "snd (snd (RequestAimUpdate c w)) = PerformAimTrace c w"
    and "CachedAimData (fst (RequestAimUpdate c w)) = PerformAimTrace c w"
  using assms
  by (auto simp add: RequestAimUpdate_def Let_def split: prod.splits
      dest: BroadcastChanges_keeps(1))

lemma PerformAimTrace_miss:
  assumes "Owner w = Some ow" and "HasWorld w"
    and "LineTraceSingleByChannel w (fst (TraceSegment c w ow)) (snd (TraceSegment c w ow)) = None"
  shows "bDidHit (PerformAimTrace c w) = False"
    and "HitActor (PerformAimTrace c w) = None"
    and "AimLocation (PerformAimTrace c w) = snd (TraceSegment c w ow)"
    and "TraceResult (PerformAimTrace c w) = Nothing"
    and "HitDistance (PerformAimTrace c w) = MaxTraceDistance c"
  using assms
  by (simp_all add: PerformAimTrace_def Let_def FAimTraceData_default_def case_prod_beta)

lemma PerformAimTrace_direction:
  assumes "Owner w = Some ow" and "HasWorld w"
  shows "AimDirection (PerformAimTrace c w)
         = GetSafeNormal (VSub (AimLocation (PerformAimTrace c w)) (GetActorLocation w ow))"
  using assms
  by (simp add: PerformAimTrace_def Let_def case_prod_beta split: option.splits)

text \<open>
  Claim C8. When the component has an owner and a world and the line trace along the aim
  segment hits nothing, the snapshot \<open>RequestAimUpdate\<close> returns (and caches) has
  \<open>bDidHit = False\<close>, no \<open>HitActor\<close>, the far end of the segment as \<open>AimLocation\<close>
  and \<open>TraceResult = Nothing\<close>. For an owner without a player controller that stands at
  the origin and faces +X, with a maximum trace distance of 10000, the far end and so the
  aim location is (10000, 0, 0).
\<close>

theorem aim_miss_snapshot:
  assumes "Owner w = Some ow" and "HasWorld w"
    and "LineTraceSingleByChannel w (fst (TraceSegment c w ow)) (snd (TraceSegment c w ow)) = None"
    and "RequestAimUpdate c w = (c', evs, d)"
  shows "bDidHit d = False \<and> HitActor d = None
         \<and> AimLocation d = snd (TraceSegment c w ow)
         \<and> TraceResult d = Nothing
         \<and> CachedAimData c' = d
         \<and> (GetOwnerController w = None \<and> GetActorLocation w ow = FVector 0 0 0
              \<and> GetActorForwardVector w ow = FVector 1 0 0 \<and> MaxTraceDistance c = 10000
            \<longrightarrow> AimLocation d = FVector 10000 0 0)"
proof -
  have d: "d = PerformAimTrace c w"
    using RequestAimUpdate_data(1)[OF assms(1,2), of c] assms(4) by simp
  have c': "CachedAimData c' = PerformAimTrace c w"
    using RequestAimUpdate_data(2)[OF assms(1,2), of c] assms(4) by simp
  have far: "GetOwnerController w = None \<Longrightarrow> GetActorLocation w ow = FVector 0 0 0
              \<Longrightarrow> GetActorForwardVector w ow = FVector 1 0 0 \<Longrightarrow> MaxTraceDistance c = 10000
              \<Longrightarrow> snd (TraceSegment c w ow) = FVector 10000 0 0"
    by (simp add: TraceSegment_def Let_def VAdd_def VScale_def)
  show ?thesis
    using PerformAimTrace_miss[OF assms(1,2,3)] d c' far by simp
qed

theorem aim_miss_snapshot_witness:
  "bDidHit (snd (snd (RequestAimUpdate UAC_AimComponent_ctor QuietWorld))) = False
   \<and> HitActor (snd (snd (RequestAimUpdate UAC_AimComponent_ctor QuietWorld))) = None
   \<and> TraceResult (snd (snd (RequestAimUpdate UAC_AimComponent_ctor QuietWorld))) = Nothing
   \<and> AimLocation (snd (snd (RequestAimUpdate UAC_AimComponent_ctor QuietWorld)))
       = FVector 10000 0 0"
proof -
  obtain c' evs d where r: "RequestAimUpdate UAC_AimComponent_ctor QuietWorld = (c', evs, d)"
    by (cases "RequestAimUpdate UAC_AimComponent_ctor QuietWorld") auto
  have h1: "Owner QuietWorld = Some 10" by (simp add: QuietWorld_def)
  have h2: "HasWorld QuietWorld" by (simp add: QuietWorld_def)
  have h3: "LineTraceSingleByChannel QuietWorld
              (fst (TraceSegment UAC_AimComponent_ctor QuietWorld 10))
              (snd (TraceSegment UAC_AimComponent_ctor QuietWorld 10)) = None"
    by (simp add: QuietWorld_def)
  have h4: "GetOwnerController QuietWorld = None \<and> GetActorLocation QuietWorld 10 = FVector 0 0 0
            \<and> GetActorForwardVector QuietWorld 10 = FVector 1 0 0
            \<and> MaxTraceDistance UAC_AimComponent_ctor = 10000"
    by (simp add: QuietWorld_def GetOwnerController_def ZeroVector_def ForwardVector_def
        UAC_AimComponent_ctor_def)
  note t = aim_miss_snapshot[OF h1 h2 h3 r]
  from t h4 have "AimLocation d = FVector 10000 0 0" by blast
  with t show ?thesis by (simp add: r)
qed

lemma PerformAimTrace_hit:
  assumes "Owner w = Some ow" and "HasWorld w"
    and "LineTraceSingleByChannel w (fst (TraceSegment c w ow)) (snd (TraceSegment c w ow)) = Some h"
  shows "bDidHit (PerformAimTrace c w) = True"
    and "HitActor (PerformAimTrace c w) = HitObjectActor h"
    and "AimLocation (PerformAimTrace c w) = ImpactPoint h"
    and "TraceResult (PerformAimTrace c w) = ClassifyHitActor c w (HitObjectActor h)"
    and "HitDistance (PerformAimTrace c w) = Distance h"
  using assms
  by (simp_all add: PerformAimTrace_def Let_def FAimTraceData_default_def case_prod_beta)

text \<open>
  Claim C9. An actor struck by the aim ray is classified in this order: a tag from the
  interactable tags gives \<open>Interactable\<close>; otherwise a tag from the friendly tags gives
  \<open>Friendly\<close>; otherwise, when the owner and the actor both expose a team identity, a
  friendly attitude of the owner towards the actor gives \<open>Friendly\<close> and a hostile one
  \<open>Enemy\<close>; in every remaining case (no owner, a side without team identity, a neutral
  attitude, a hit without an actor) the result is \<open>World\<close>. The snapshot of a trace that
  hit carries this classification of the actor hit.
\<close>

theorem classification_priority:
  "ClassifyHitActor c w None = World
   \<and> ((\<exists>t \<in> set (InteractableActorTags c). ActorHasTag w a t)
        \<longrightarrow> ClassifyHitActor c w (Some a) = Interactable)
   \<and> (\<not> (\<exists>t \<in> set (InteractableActorTags c). ActorHasTag w a t)
        \<and> (\<exists>t \<in> set (FriendlyActorTags c). ActorHasTag w a t)
        \<longrightarrow> ClassifyHitActor c w (Some a) = Friendly)
   \<and> (\<not> (\<exists>t \<in> set (InteractableActorTags c). ActorHasTag w a t)
        \<and> \<not> (\<exists>t \<in> set (FriendlyActorTags c). ActorHasTag w a t)
        \<longrightarrow> ClassifyHitActor c w (Some a) =
            (case Owner w of
               None \<Rightarrow> World
             | Some ow \<Rightarrow>
                 if GenericTeamId w ow \<noteq> None \<and> GenericTeamId w a \<noteq> None
                 then (case TeamAttitudeTowards w ow a of
                         AttitudeFriendly \<Rightarrow> Friendly
                       | AttitudeHostile \<Rightarrow> Enemy
                       | AttitudeNeutral \<Rightarrow> World)
                 else World))
   \<and> (Owner w = Some ow \<and> HasWorld w
        \<and> LineTraceSingleByChannel w (fst (TraceSegment c w ow)) (snd (TraceSegment c w ow))
            = Some h
        \<longrightarrow> HitActor (PerformAimTrace c w) = HitObjectActor h
            \<and> TraceResult (PerformAimTrace c w) = ClassifyHitActor c w (HitObjectActor h))"
proof -
  have n: "ClassifyHitActor c w None = World"
    by (simp add: ClassifyHitActor_def)
  have i: "(\<exists>t \<in> set (InteractableActorTags c). ActorHasTag w a t)
            \<Longrightarrow> ClassifyHitActor c w (Some a) = Interactable"
    by (simp add: ClassifyHitActor_def ActorHasAnyTag_iff)
  have f: "\<not> (\<exists>t \<in> set (InteractableActorTags c). ActorHasTag w a t)
            \<Longrightarrow> (\<exists>t \<in> set (FriendlyActorTags c). ActorHasTag w a t)
            \<Longrightarrow> ClassifyHitActor c w (Some a) = Friendly"
    by (simp add: ClassifyHitActor_def ActorHasAnyTag_iff)
  have t: "\<not> (\<exists>t \<in> set (InteractableActorTags c). ActorHasTag w a t)
            \<Longrightarrow> \<not> (\<exists>t \<in> set (FriendlyActorTags c). ActorHasTag w a t)
            \<Longrightarrow> ClassifyHitActor c w (Some a) =
            (case Owner w of
               None \<Rightarrow> World
             | Some ow \<Rightarrow>
                 if GenericTeamId w ow \<noteq> None \<and> GenericTeamId w a \<noteq> None
                 then (case TeamAttitudeTowards w ow a of
                         AttitudeFriendly \<Rightarrow> Friendly
                       | AttitudeHostile \<Rightarrow> Enemy
                       | AttitudeNeutral \<Rightarrow> World)
                 else World)"
    by (simp add: ClassifyHitActor_def ActorHasAnyTag_iff Let_def
        split: option.splits ETeamAttitude.splits)
  show ?thesis
    using n i f t PerformAimTrace_hit(2,4) by blast
qed

theorem classification_priority_witness:
  "ClassifyHitActor TaggedAim TeamWorld (Some 2) = Interactable
   \<and> ClassifyHitActor TaggedAim TeamWorld (Some 3) = Friendly
   \<and> ClassifyHitActor TaggedAim TeamWorld (Some 4) = Friendly
   \<and> ClassifyHitActor TaggedAim TeamWorld (Some 5) = Enemy
   \<and> ClassifyHitActor TaggedAim TeamWorld (Some 6) = World
   \<and> ClassifyHitActor TaggedAim TeamWorld (Some 7) = World
   \<and> TraceResult (PerformAimTrace TaggedAim (TeamWorld
        \<lparr> LineTraceSingleByChannel :=
            (\<lambda>s e. Some \<lparr> bBlockingHit = True, bStartPenetrating = False, Distance = 300,
                           Location = FVector 300 0 0, ImpactPoint = FVector 300 0 0,
                           Normal = UpVector, ImpactNormal = UpVector, PhysMaterial = None,
                           HitObjectActor = Some 5 \<rparr>) \<rparr>)) = Enemy"
proof -
  let ?h = "\<lparr> bBlockingHit = True, bStartPenetrating = False, Distance = 300,
              Location = FVector 300 0 0, ImpactPoint = FVector 300 0 0,
              Normal = UpVector, ImpactNormal = UpVector, PhysMaterial = None,
              HitObjectActor = Some 5 \<rparr>"
  let ?w = "TeamWorld \<lparr> LineTraceSingleByChannel := (\<lambda>s e. Some ?h) \<rparr>"
  have tags: "InteractableActorTags TaggedAim = [''Pickup'']"
    "FriendlyActorTags TaggedAim = [''Ally'']"
    by (simp_all add: TaggedAim_def UAC_AimComponent_ctor_def)
  have own: "Owner TeamWorld = Some 10" "Owner ?w = Some 10" "HasWorld ?w"
    by (simp_all add: TeamWorld_def QuietWorld_def)
  have a2: "ClassifyHitActor TaggedAim TeamWorld (Some 2) = Interactable"
    using classification_priority[of TaggedAim TeamWorld 2]
    by (simp add: tags TeamWorld_def QuietWorld_def)
  have a3: "ClassifyHitActor TaggedAim TeamWorld (Some 3) = Friendly"
    using classification_priority[of TaggedAim TeamWorld 3]
    by (simp add: tags TeamWorld_def QuietWorld_def)
  have a4: "ClassifyHitActor TaggedAim TeamWorld (Some 4) = Friendly"
    using classification_priority[of TaggedAim TeamWorld 4]
    by (simp add: tags TeamWorld_def QuietWorld_def)
  have a5: "ClassifyHitActor TaggedAim TeamWorld (Some 5) = Enemy"
    using classification_priority[of TaggedAim TeamWorld 5]
    by (simp add: tags TeamWorld_def QuietWorld_def)
  have a6: "ClassifyHitActor TaggedAim TeamWorld (Some 6) = World"
    using classification_priority[of TaggedAim TeamWorld 6]
    by (simp add: tags TeamWorld_def QuietWorld_def)
  have a7: "ClassifyHitActor TaggedAim TeamWorld (Some 7) = World"
    using classification_priority[of TaggedAim TeamWorld 7]
    by (simp add: tags TeamWorld_def QuietWorld_def)
  have w5: "ClassifyHitActor TaggedAim ?w (Some 5) = Enemy"
    using classification_priority[of TaggedAim ?w 5]
    by (simp add: tags TeamWorld_def QuietWorld_def)
  have tr: "TraceResult (PerformAimTrace TaggedAim ?w) = ClassifyHitActor TaggedAim ?w (Some 5)"
    using classification_priority[of TaggedAim ?w 5 10 ?h] own by simp
  show ?thesis using a2 a3 a4 a5 a6 a7 w5 tr by simp
qed

subsection \<open>The aim direction\<close>

lemma aim_direction_unit:
  assumes "Owner w = Some ow" and "HasWorld w"
    and "RequestAimUpdate c w = (c', evs, d)"
    and "SMALL_NUMBER \<le> SizeSquared (VSub (AimLocation d) (GetActorLocation w ow))"
  shows "Size (AimDirection d) = 1"
proof -
  have d: "d = PerformAimTrace c w"
    using RequestAimUpdate_data(1)[OF assms(1,2), of c] assms(3) by simp
  show ?thesis
    using PerformAimTrace_direction[OF assms(1,2), of c] GetSafeNormal_unit assms(4) d
    by simp
qed

text \<open>
  Claim C5 says the aim direction of every snapshot has length 1. The lemma above gives that
  whenever the aim location is away from the owner's location. It fails when the two
  coincide: for an owner without a player controller whose trace starts inside a blocking
  object (the hit is reported at the trace start, distance 0), the snapshot has
  \<open>bDidHit = True\<close>, the aim location is the owner's location and the direction is the
  zero vector, of length 0.
\<close>

theorem aim_direction_degenerate:
  "bDidHit (snd (snd (RequestAimUpdate UAC_AimComponent_ctor PenetratingWorld))) = True
   \<and> AimLocation (snd (snd (RequestAimUpdate UAC_AimComponent_ctor PenetratingWorld)))
       = GetActorLocation PenetratingWorld 10
   \<and> AimDirection (snd (snd (RequestAimUpdate UAC_AimComponent_ctor PenetratingWorld)))
       = ZeroVector
   \<and> Size (AimDirection (snd (snd (RequestAimUpdate UAC_AimComponent_ctor PenetratingWorld))))
       = 0"
proof -
  have h1: "Owner PenetratingWorld = Some 10" and h2: "HasWorld PenetratingWorld"
    by (simp_all add: PenetratingWorld_def QuietWorld_def)
  have loc: "GetActorLocation PenetratingWorld 10 = ZeroVector"
    by (simp add: PenetratingWorld_def QuietWorld_def)
  have seg: "fst (TraceSegment UAC_AimComponent_ctor PenetratingWorld 10) = ZeroVector"
    by (simp add: TraceSegment_def GetOwnerController_def PenetratingWorld_def QuietWorld_def)
  have tr: "LineTraceSingleByChannel PenetratingWorld
              (fst (TraceSegment UAC_AimComponent_ctor PenetratingWorld 10))
              (snd (TraceSegment UAC_AimComponent_ctor PenetratingWorld 10))
            = Some \<lparr> bBlockingHit = True, bStartPenetrating = True, Distance = 0,
                     Location = ZeroVector, ImpactPoint = ZeroVector, Normal = UpVector,
                     ImpactNormal = UpVector, PhysMaterial = None, HitObjectActor = Some 2 \<rparr>"
    by (simp add: seg) (simp add: PenetratingWorld_def QuietWorld_def)
  note hit = PerformAimTrace_hit[OF h1 h2 tr]
  have al: "AimLocation (PerformAimTrace UAC_AimComponent_ctor PenetratingWorld) = ZeroVector"
    using hit(3) by simp
  have dir: "AimDirection (PerformAimTrace UAC_AimComponent_ctor PenetratingWorld) = ZeroVector"
    using PerformAimTrace_direction[OF h1 h2, of UAC_AimComponent_ctor]
    by (simp add: al loc GetSafeNormal_small VSub_def ZeroVector_def SizeSquared_def
        SMALL_NUMBER_def)
  show ?thesis
    using RequestAimUpdate_data(1)[OF h1 h2, of UAC_AimComponent_ctor] hit(1) al dir loc
    by (simp add: Size_Zero)
qed

subsection \<open>Trajectory correction\<close>

lemma GetSafeNormal_scaled:
  assumes "SMALL_NUMBER \<le> SizeSquared v"
  shows "GetSafeNormal v = VScale v (1 / Size v)"
proof (cases "SizeSquared v = 1")
  case True
  then show ?thesis
    by (cases v) (simp add: GetSafeNormal_def SizeSquared_def Size_def VScale_def)
next
  case False
  then show ?thesis using assms
    by (simp add: GetSafeNormal_def SizeSquared_def Size_def VScale_def Let_def)
qed

lemma Size_VScale: "Size (VScale v s) = \<bar>s\<bar> * Size v"
proof -
  have "SizeSquared (VScale v s) = (s * s) * SizeSquared v"
    by (simp add: SizeSquared_def VScale_def algebra_simps)
  then have "Size (VScale v s) = sqrt (s * s) * sqrt (SizeSquared v)"
    by (simp add: Size_def real_sqrt_mult)
  then show ?thesis by (simp add: Size_def)
qed

lemma unit_not_nearly_zero:
  assumes "Size v = 1"
  shows "\<not> IsNearlyZero v"
proof
  assume nz: "IsNearlyZero v"
  have b: "\<And>x::real. \<bar>x\<bar> \<le> 1 / 10000 \<Longrightarrow> x * x \<le> 1 / 100000000"
  proof -
    fix x :: real assume "\<bar>x\<bar> \<le> 1 / 10000"
    then have "\<bar>x\<bar> * \<bar>x\<bar> \<le> (1 / 10000) * (1 / 10000)"
      by (intro mult_mono) simp_all
    then show "x * x \<le> 1 / 100000000" by simp
  qed
  have "SizeSquared v \<le> 3 / 100000000"
    using nz b[of "X v"] b[of "Y v"] b[of "Z v"]
    by (simp add: IsNearlyZero_def KINDA_SMALL_NUMBER_def SizeSquared_def)
  moreover have "SizeSquared v = 1"
    using assms by (simp add: Size_def)
  ultimately show False by simp
qed


text \<open>
  Claim C6, amended. For a component with an owner, \<open>GetAimDirectionFromLocation p\<close> is
  the owner's forward vector when \<open>p\<close> lies within the normalisation tolerance of the
  cached aim location; otherwise it is the unit vector from \<open>p\<close> towards the cached aim
  location, unless the dot product of that unit vector with the owner's forward vector is
  below 0.1, in which case it is the owner's forward vector. With the cached aim location at
  (1000, 0, 0), the owner facing +X and \<open>p\<close> = (0, 0, 70), the result has a negative Z, is
  not the facing vector and has length 1.
\<close>

theorem aim_direction_from_location:
  assumes "Owner w = Some ow"
  shows "(SizeSquared (VSub (AimLocation (CachedAimData c)) p) < SMALL_NUMBER
            \<longrightarrow> GetAimDirectionFromLocation c w p = GetActorForwardVector w ow)
         \<and> (SMALL_NUMBER \<le> SizeSquared (VSub (AimLocation (CachedAimData c)) p)
            \<longrightarrow> Size (VScale (VSub (AimLocation (CachedAimData c)) p)
                          (1 / Size (VSub (AimLocation (CachedAimData c)) p))) = 1
                \<and> GetAimDirectionFromLocation c w p =
                    (if DotProduct (VScale (VSub (AimLocation (CachedAimData c)) p)
                                      (1 / Size (VSub (AimLocation (CachedAimData c)) p)))
                          (GetActorForwardVector w ow) < 1 / 10
                     then GetActorForwardVector w ow
                     else VScale (VSub (AimLocation (CachedAimData c)) p)
                            (1 / Size (VSub (AimLocation (CachedAimData c)) p))))
         \<and> (AimLocation (CachedAimData c) = FVector 1000 0 0
              \<and> GetActorForwardVector w ow = FVector 1 0 0
            \<longrightarrow> Z (GetAimDirectionFromLocation c w (FVector 0 0 70)) < 0
                \<and> GetAimDirectionFromLocation c w (FVector 0 0 70) \<noteq> GetActorForwardVector w ow
                \<and> Size (GetAimDirectionFromLocation c w (FVector 0 0 70)) = 1)"
proof -
  let ?v = "VSub (AimLocation (CachedAimData c)) p"
  let ?f = "GetActorForwardVector w ow"
  have small: "SizeSquared ?v < SMALL_NUMBER \<Longrightarrow> GetAimDirectionFromLocation c w p = ?f"
    using assms
    by (simp add: GetAimDirectionFromLocation_def Let_def GetSafeNormal_small IsNearlyZero_def
        ZeroVector_def KINDA_SMALL_NUMBER_def)
  have big: "SMALL_NUMBER \<le> SizeSquared ?v \<Longrightarrow>
        Size (VScale ?v (1 / Size ?v)) = 1
        \<and> GetAimDirectionFromLocation c w p =
            (if DotProduct (VScale ?v (1 / Size ?v)) ?f < 1 / 10 then ?f
             else VScale ?v (1 / Size ?v))"
  proof -
    assume a: "SMALL_NUMBER \<le> SizeSquared ?v"
    have n: "GetSafeNormal ?v = VScale ?v (1 / Size ?v)"
      by (rule GetSafeNormal_scaled[OF a])
    have u: "Size (VScale ?v (1 / Size ?v)) = 1"
      using GetSafeNormal_unit[OF a] n by simp
    have nz: "\<not> IsNearlyZero (VScale ?v (1 / Size ?v))"
      by (rule unit_not_nearly_zero[OF u])
    show ?thesis
      using assms n u nz by (simp add: GetAimDirectionFromLocation_def Let_def)
  qed
  have scen: "AimLocation (CachedAimData c) = FVector 1000 0 0 \<Longrightarrow> ?f = FVector 1 0 0
        \<Longrightarrow> Z (GetAimDirectionFromLocation c w (FVector 0 0 70)) < 0
            \<and> GetAimDirectionFromLocation c w (FVector 0 0 70) \<noteq> ?f
            \<and> Size (GetAimDirectionFromLocation c w (FVector 0 0 70)) = 1"
  proof -
    assume al: "AimLocation (CachedAimData c) = FVector 1000 0 0" and f: "?f = FVector 1 0 0"
    let ?m = "FVector 1000 0 (- 70)"
    have v: "VSub (FVector 1000 0 0) (FVector 0 0 70) = ?m" by (simp add: VSub_def)
    have ss: "SizeSquared ?m = 1004900" by (simp add: SizeSquared_def)
    have a: "SMALL_NUMBER \<le> SizeSquared ?m" by (simp add: ss SMALL_NUMBER_def)
    have sz: "Size ?m = sqrt 1004900" by (simp add: Size_def ss)
    have pos: "0 < sqrt (1004900::real)" by simp
    have le: "sqrt (1004900::real) \<le> 10000"
      by (rule real_le_lsqrt) simp_all
    have n: "GetSafeNormal ?m = VScale ?m (1 / sqrt 1004900)"
      using GetSafeNormal_scaled[OF a] sz by simp
    have u: "Size (GetSafeNormal ?m) = 1" by (rule GetSafeNormal_unit[OF a])
    have nz: "\<not> IsNearlyZero (GetSafeNormal ?m)" by (rule unit_not_nearly_zero[OF u])
    have dot: "\<not> DotProduct (GetSafeNormal ?m) (FVector 1 0 0) < 1 / 10"
    proof -
      have "DotProduct (GetSafeNormal ?m) (FVector 1 0 0) = 1000 / sqrt 1004900"
        by (simp add: n DotProduct_def VScale_def)
      moreover have "(1::real) / 10 \<le> 1000 / sqrt 1004900"
        using pos le by (simp add: field_simps)
      ultimately show ?thesis by simp
    qed
    have r: "GetAimDirectionFromLocation c w (FVector 0 0 70) = GetSafeNormal ?m"
      using assms al f nz dot v by (simp add: GetAimDirectionFromLocation_def Let_def)
    have z: "Z (GetSafeNormal ?m) < 0"
      using pos by (simp add: n VScale_def)
    have ne: "GetSafeNormal ?m \<noteq> FVector 1 0 0"
      using z by (cases "GetSafeNormal ?m") auto
    show ?thesis using r z ne u f by simp
  qed
  show ?thesis using small big scen by blast
qed

theorem aim_direction_from_location_witness:
  "GetAimDirectionFromLocation ScenarioB_Aim QuietWorld (FVector 1000 0 0) = FVector 1 0 0
   \<and> GetAimDirectionFromLocation ScenarioB_Aim QuietWorld (FVector 0 0 0) = FVector 1 0 0
   \<and> GetAimDirectionFromLocation ScenarioB_Aim QuietWorld (FVector 2000 0 0) = FVector 1 0 0
   \<and> Z (GetAimDirectionFromLocation ScenarioB_Aim QuietWorld (FVector 0 0 70)) < 0
   \<and> Size (GetAimDirectionFromLocation ScenarioB_Aim QuietWorld (FVector 0 0 70)) = 1"
proof -
  have o: "Owner QuietWorld = Some 10" by (simp add: QuietWorld_def)
  have al: "AimLocation (CachedAimData ScenarioB_Aim) = FVector 1000 0 0"
    by (simp add: ScenarioB_Aim_def UAC_AimComponent_ctor_def)
  have f: "GetActorForwardVector QuietWorld 10 = FVector 1 0 0"
    by (simp add: QuietWorld_def ForwardVector_def)
  have s0: "SizeSquared (VSub (FVector 1000 0 0) (FVector 1000 0 0)) < SMALL_NUMBER"
    by (simp add: VSub_def SizeSquared_def SMALL_NUMBER_def)
  have s1: "SMALL_NUMBER \<le> SizeSquared (VSub (FVector 1000 0 0) (FVector 0 0 0))"
    "Size (VSub (FVector 1000 0 0) (FVector 0 0 0)) = 1000"
    by (simp_all add: VSub_def SizeSquared_def Size_def SMALL_NUMBER_def)
  have s2: "SMALL_NUMBER \<le> SizeSquared (VSub (FVector 1000 0 0) (FVector 2000 0 0))"
    "Size (VSub (FVector 1000 0 0) (FVector 2000 0 0)) = 1000"
    by (simp_all add: VSub_def SizeSquared_def Size_def SMALL_NUMBER_def)
  have a: "GetAimDirectionFromLocation ScenarioB_Aim QuietWorld (FVector 1000 0 0) = FVector 1 0 0"
    using aim_direction_from_location[OF o, of ScenarioB_Aim "FVector 1000 0 0"] s0
    by (simp add: al f)
  have b: "GetAimDirectionFromLocation ScenarioB_Aim QuietWorld (FVector 0 0 0) = FVector 1 0 0"
    using aim_direction_from_location[OF o, of ScenarioB_Aim "FVector 0 0 0"] s1
    by (simp add: al f VSub_def VScale_def DotProduct_def)
  have c: "GetAimDirectionFromLocation ScenarioB_Aim QuietWorld (FVector 2000 0 0) = FVector 1 0 0"
    using aim_direction_from_location[OF o, of ScenarioB_Aim "FVector 2000 0 0"] s2
    by (simp add: al f VSub_def VScale_def DotProduct_def)
  have d: "Z (GetAimDirectionFromLocation ScenarioB_Aim QuietWorld (FVector 0 0 70)) < 0
           \<and> Size (GetAimDirectionFromLocation ScenarioB_Aim QuietWorld (FVector 0 0 70)) = 1"
    using aim_direction_from_location[OF o, of ScenarioB_Aim] al f by blast
  show ?thesis using a b c d by simp
qed

text \<open>
  The claim as stated falls back to the facing only for a degenerate or backward direction.
  A player whose camera looks up steeply resolves the aim location (21, 0, 220); from the
  origin the unit vector towards it is (21/221, 0, 220/221), which is neither degenerate nor
  backward (its dot product with the facing +X is positive), and still the function returns
  the facing vector.
\<close>

theorem aim_direction_from_location_counterexample:
  "AimLocation (CachedAimData (fst (RequestAimUpdate ShortAim LookUpWorld))) = FVector 21 0 220
   \<and> GetSafeNormal (VSub (FVector 21 0 220) ZeroVector) = FVector (21 / 221) 0 (220 / 221)
   \<and> \<not> IsNearlyZero (FVector (21 / 221) 0 (220 / 221))
   \<and> 0 < DotProduct (FVector (21 / 221) 0 (220 / 221)) (GetActorForwardVector LookUpWorld 10)
   \<and> GetAimDirectionFromLocation (fst (RequestAimUpdate ShortAim LookUpWorld)) LookUpWorld
        ZeroVector = ForwardVector
   \<and> ForwardVector \<noteq> FVector (21 / 221) 0 (220 / 221)"
proof -
  have o: "Owner LookUpWorld = Some 10" and hw: "HasWorld LookUpWorld"
    by (simp_all add: LookUpWorld_def QuietWorld_def)
  have seg: "TraceSegment ShortAim LookUpWorld 10 = (ZeroVector, FVector 21 0 220)"
    by (simp add: TraceSegment_def GetOwnerController_def LookUpWorld_def QuietWorld_def
        LookUpController_def ShortAim_def UAC_AimComponent_ctor_def VAdd_def VScale_def
        ZeroVector_def)
  have miss: "LineTraceSingleByChannel LookUpWorld (fst (TraceSegment ShortAim LookUpWorld 10))
                (snd (TraceSegment ShortAim LookUpWorld 10)) = None"
    by (simp add: LookUpWorld_def QuietWorld_def)
  have al: "AimLocation (CachedAimData (fst (RequestAimUpdate ShortAim LookUpWorld)))
            = FVector 21 0 220"
    using RequestAimUpdate_data(2)[OF o hw, of ShortAim] PerformAimTrace_miss(3)[OF o hw miss]
    by (simp add: seg)
  have n: "GetSafeNormal (VSub (FVector 21 0 220) ZeroVector) = FVector (21 / 221) 0 (220 / 221)"
    by (simp add: GetSafeNormal_def VSub_def ZeroVector_def SMALL_NUMBER_def Let_def)
  have nz: "\<not> IsNearlyZero (FVector (21 / 221) 0 (220 / 221))"
    by (simp add: IsNearlyZero_def KINDA_SMALL_NUMBER_def)
  have f: "GetActorForwardVector LookUpWorld 10 = ForwardVector"
    by (simp add: LookUpWorld_def QuietWorld_def)
  have dot: "DotProduct (FVector (21 / 221) 0 (220 / 221)) ForwardVector = 21 / 221"
    by (simp add: DotProduct_def ForwardVector_def)
  have r: "GetAimDirectionFromLocation (fst (RequestAimUpdate ShortAim LookUpWorld)) LookUpWorld
             ZeroVector = ForwardVector"
    using o by (simp add: GetAimDirectionFromLocation_def Let_def al n f dot)
  have ne: "ForwardVector \<noteq> FVector (21 / 221) 0 (220 / 221)"
    by (simp add: ForwardVector_def)
  show ?thesis using al n nz f dot r ne by simp
qed

subsection \<open>Launch velocity\<close>

lemma InitializeProjectile_velocity:
  assumes "ProjectileMovement p = Some m"
  shows "map_option Velocity (ProjectileMovement (InitializeProjectile p w oa d))
         = Some (VScale (GetSafeNormal d) (InitialSpeed p))"
  using assms
  by (simp add: InitializeProjectile_def Let_def split: option.splits)

text \<open>
  Claim C10, amended. On a projectile that has its movement component,
  \<open>InitializeProjectile\<close> sets the velocity to the launch direction divided by its length
  and multiplied by \<open>InitialSpeed\<close>, for every launch direction whose squared length is at
  least the normalisation tolerance \<open>SMALL_NUMBER\<close>; the speed is then \<open>InitialSpeed\<close>
  when that is not negative. For a launch direction of squared length below the tolerance,
  the zero vector included, the velocity is zero.
\<close>

theorem launch_velocity:
  assumes "ProjectileMovement p = Some m"
  shows "(SMALL_NUMBER \<le> SizeSquared d
            \<longrightarrow> map_option Velocity (ProjectileMovement (InitializeProjectile p w oa d))
                  = Some (VScale (VScale d (1 / Size d)) (InitialSpeed p))
                \<and> Size (VScale d (1 / Size d)) = 1
                \<and> (0 \<le> InitialSpeed p
                    \<longrightarrow> map_option (\<lambda>m'. Size (Velocity m'))
                          (ProjectileMovement (InitializeProjectile p w oa d))
                        = Some (InitialSpeed p)))
         \<and> (SizeSquared d < SMALL_NUMBER
            \<longrightarrow> map_option Velocity (ProjectileMovement (InitializeProjectile p w oa d))
                  = Some ZeroVector)"
proof -
  note v = InitializeProjectile_velocity[OF assms, of w oa d]
  have big: "SMALL_NUMBER \<le> SizeSquared d \<Longrightarrow>
        map_option Velocity (ProjectileMovement (InitializeProjectile p w oa d))
          = Some (VScale (VScale d (1 / Size d)) (InitialSpeed p))
        \<and> Size (VScale d (1 / Size d)) = 1
        \<and> (0 \<le> InitialSpeed p
            \<longrightarrow> map_option (\<lambda>m'. Size (Velocity m'))
                  (ProjectileMovement (InitializeProjectile p w oa d)) = Some (InitialSpeed p))"
  proof -
    assume a: "SMALL_NUMBER \<le> SizeSquared d"
    have n: "GetSafeNormal d = VScale d (1 / Size d)" by (rule GetSafeNormal_scaled[OF a])
    have u: "Size (VScale d (1 / Size d)) = 1" using GetSafeNormal_unit[OF a] n by simp
    have sz: "0 \<le> InitialSpeed p \<Longrightarrow>
               Size (VScale (VScale d (1 / Size d)) (InitialSpeed p)) = InitialSpeed p"
      using u by (simp add: Size_VScale[of "VScale d (1 / Size d)"])
    from v n have e: "map_option Velocity (ProjectileMovement (InitializeProjectile p w oa d))
          = Some (VScale (VScale d (1 / Size d)) (InitialSpeed p))" by simp
    then obtain m' where m': "ProjectileMovement (InitializeProjectile p w oa d) = Some m'"
      and vm: "Velocity m' = VScale (VScale d (1 / Size d)) (InitialSpeed p)"
      by auto
    show ?thesis using e u sz m' vm by simp
  qed
  have small: "SizeSquared d < SMALL_NUMBER \<Longrightarrow>
        map_option Velocity (ProjectileMovement (InitializeProjectile p w oa d)) = Some ZeroVector"
    using v by (simp add: GetSafeNormal_small VScale_def ZeroVector_def)
  show ?thesis using big small by blast
qed

theorem launch_velocity_witness:
  "map_option Velocity
     (ProjectileMovement
        (InitializeProjectile (ABaseProjectile_ctor 100) QuietWorld (Some 10) (FVector 0 30 40)))
     = Some (FVector 0 1800 2400)
   \<and> map_option (\<lambda>m'. Size (Velocity m'))
       (ProjectileMovement
          (InitializeProjectile (ABaseProjectile_ctor 100) QuietWorld (Some 10) (FVector 0 30 40)))
     = Some 3000
   \<and> map_option Velocity
       (ProjectileMovement
          (InitializeProjectile (ABaseProjectile_ctor 100) QuietWorld (Some 10) (FVector 0 0 0)))
     = Some ZeroVector"
proof -
  have pm: "ProjectileMovement (ABaseProjectile_ctor 100)
            = Some \<lparr> Velocity = ZeroVector, ComponentInitialSpeed = 3000, MaxSpeed = 3000 \<rparr>"
    by (simp add: ABaseProjectile_ctor_def)
  have sp: "InitialSpeed (ABaseProjectile_ctor 100) = 3000"
    by (simp add: ABaseProjectile_ctor_def)
  have big: "SMALL_NUMBER \<le> SizeSquared (FVector 0 30 40)" "Size (FVector 0 30 40) = 50"
    by (simp_all add: SizeSquared_def Size_def SMALL_NUMBER_def)
  have small: "SizeSquared (FVector 0 0 0) < SMALL_NUMBER"
    by (simp add: SizeSquared_def SMALL_NUMBER_def)
  have a: "map_option Velocity
     (ProjectileMovement
        (InitializeProjectile (ABaseProjectile_ctor 100) QuietWorld (Some 10) (FVector 0 30 40)))
     = Some (FVector 0 1800 2400)
     \<and> map_option (\<lambda>m'. Size (Velocity m'))
       (ProjectileMovement
          (InitializeProjectile (ABaseProjectile_ctor 100) QuietWorld (Some 10) (FVector 0 30 40)))
     = Some 3000"
    using launch_velocity[OF pm, of "FVector 0 30 40" QuietWorld "Some 10"] big
    by (simp add: sp VScale_def)
  have b: "map_option Velocity
       (ProjectileMovement
          (InitializeProjectile (ABaseProjectile_ctor 100) QuietWorld (Some 10) (FVector 0 0 0)))
     = Some ZeroVector"
    using launch_velocity[OF pm, of "FVector 0 0 0" QuietWorld "Some 10"] small by simp
  show ?thesis using a b by simp
qed

text \<open>
  The claim as stated speaks of every non-zero launch direction. The direction
  (0.00001, 0, 0) is not zero, and the projectile of the constructor, whose initial speed is
  3000, is given the zero velocity, of length 0.
\<close>

theorem launch_velocity_counterexample:
  "FVector (1 / 100000) 0 0 \<noteq> ZeroVector
   \<and> InitialSpeed (ABaseProjectile_ctor 100) = 3000
   \<and> map_option Velocity
       (ProjectileMovement
          (InitializeProjectile (ABaseProjectile_ctor 100) QuietWorld (Some 10)
             (FVector (1 / 100000) 0 0)))
     = Some ZeroVector
   \<and> map_option (\<lambda>m'. Size (Velocity m'))
       (ProjectileMovement
          (InitializeProjectile (ABaseProjectile_ctor 100) QuietWorld (Some 10)
             (FVector (1 / 100000) 0 0)))
     = Some 0"
proof -
  have pm: "ProjectileMovement (ABaseProjectile_ctor 100)
            = Some \<lparr> Velocity = ZeroVector, ComponentInitialSpeed = 3000, MaxSpeed = 3000 \<rparr>"
    by (simp add: ABaseProjectile_ctor_def)
  have small: "SizeSquared (FVector (1 / 100000) 0 0) < SMALL_NUMBER"
    by (simp add: SizeSquared_def SMALL_NUMBER_def)
  have v: "map_option Velocity
       (ProjectileMovement
          (InitializeProjectile (ABaseProjectile_ctor 100) QuietWorld (Some 10)
             (FVector (1 / 100000) 0 0)))
     = Some ZeroVector"
    using InitializeProjectile_velocity[OF pm, of QuietWorld "Some 10" "FVector (1 / 100000) 0 0"]
    by (simp add: GetSafeNormal_small[OF small] VScale_def ZeroVector_def)
  then obtain m' where m': "ProjectileMovement
          (InitializeProjectile (ABaseProjectile_ctor 100) QuietWorld (Some 10)
             (FVector (1 / 100000) 0 0)) = Some m'" and vm: "Velocity m' = ZeroVector"
    by auto
  have ne: "FVector (1 / 100000) 0 0 \<noteq> ZeroVector" by (simp add: ZeroVector_def)
  have sp: "InitialSpeed (ABaseProjectile_ctor 100) = 3000"
    by (simp add: ABaseProjectile_ctor_def)
  show ?thesis using v ne sp m' vm by (simp add: Size_Zero)
qed

subsection \<open>Change notifications\<close>

lemma BroadcastChanges_result:
  assumes "BroadcastChanges c w od nd = (c', evs)"
  shows "filter IsTargetChanged evs =
           (if WeakGet w (PreviousTargetActor c) \<noteq> HitActor nd
            then [OnAimTargetChanged (HitActor nd) (TraceResult nd)] else [])"
    and "filter IsLocationUpdated evs =
           (if LocationUpdateThreshold c < Dist (PreviousAimLocation c) (AimLocation nd)
            then [OnAimLocationUpdated (AimLocation nd) (AimDirection nd)] else [])"
    and "PreviousTargetActor c' =
           (if WeakGet w (PreviousTargetActor c) \<noteq> HitActor nd then HitActor nd
            else PreviousTargetActor c)"
    and "PreviousAimLocation c' =
           (if LocationUpdateThreshold c < Dist (PreviousAimLocation c) (AimLocation nd)
            then AimLocation nd else PreviousAimLocation c)"
  using assms
  by (auto simp add: BroadcastChanges_def Let_def split: if_splits)

lemma RequestAimUpdate_result:
  assumes "Owner w = Some ow" and "HasWorld w"
    and "RequestAimUpdate c w = (c', evs, d)"
  shows "d = PerformAimTrace c w"
    and "filter IsTargetChanged evs =
           (if WeakGet w (PreviousTargetActor c) \<noteq> HitActor d
            then [OnAimTargetChanged (HitActor d) (TraceResult d)] else [])"
    and "filter IsLocationUpdated evs =
           (if LocationUpdateThreshold c < Dist (PreviousAimLocation c) (AimLocation d)
            then [OnAimLocationUpdated (AimLocation d) (AimDirection d)] else [])"
    and "PreviousTargetActor c' =
           (if WeakGet w (PreviousTargetActor c) \<noteq> HitActor d then HitActor d
            else PreviousTargetActor c)"
    and "PreviousAimLocation c' =
           (if LocationUpdateThreshold c < Dist (PreviousAimLocation c) (AimLocation d)
            then AimLocation d else PreviousAimLocation c)"
    and "LocationUpdateThreshold c' = LocationUpdateThreshold c"
    and "MaxTraceDistance c' = MaxTraceDistance c"
    and "CrosshairScreenPosition c' = CrosshairScreenPosition c"
    and "FriendlyActorTags c' = FriendlyActorTags c"
    and "InteractableActorTags c' = InteractableActorTags c"
proof -
  let ?nd = "PerformAimTrace c w"
  let ?c2 = "c\<lparr> CachedAimData := ?nd,
                bAimIsBlocked := (bDidHit ?nd \<and> HitDistance ?nd < MinAimDistance c) \<rparr>"
  obtain cb eb where b: "BroadcastChanges ?c2 w (CachedAimData c) ?nd = (cb, eb)"
    by (cases "BroadcastChanges ?c2 w (CachedAimData c) ?nd") auto
  have cd: "CachedAimData cb = ?nd"
    using BroadcastChanges_keeps(1)[OF b] by simp
  have r: "\<exists>eblk. RequestAimUpdate c w = (cb, eblk @ eb, CachedAimData cb)
             \<and> filter IsTargetChanged eblk = [] \<and> filter IsLocationUpdated eblk = []"
    using assms(1,2) b by (simp add: RequestAimUpdate_def Let_def)
  then obtain eblk where c': "c' = cb" and d: "d = ?nd" and evs: "evs = eblk @ eb"
    and blk: "filter IsTargetChanged eblk = []" "filter IsLocationUpdated eblk = []"
    using assms(3) cd by auto
  show "d = PerformAimTrace c w" by (rule d)
  show "filter IsTargetChanged evs =
           (if WeakGet w (PreviousTargetActor c) \<noteq> HitActor d
            then [OnAimTargetChanged (HitActor d) (TraceResult d)] else [])"
    using BroadcastChanges_result(1)[OF b] by (simp add: evs d blk)
  show "filter IsLocationUpdated evs =
           (if LocationUpdateThreshold c < Dist (PreviousAimLocation c) (AimLocation d)
            then [OnAimLocationUpdated (AimLocation d) (AimDirection d)] else [])"
    using BroadcastChanges_result(2)[OF b] by (simp add: evs d blk)
  show "PreviousTargetActor c' =
           (if WeakGet w (PreviousTargetActor c) \<noteq> HitActor d then HitActor d
            else PreviousTargetActor c)"
    using BroadcastChanges_result(3)[OF b] by (simp add: c' d)
  show "PreviousAimLocation c' =
           (if LocationUpdateThreshold c < Dist (PreviousAimLocation c) (AimLocation d)
            then AimLocation d else PreviousAimLocation c)"
    using BroadcastChanges_result(4)[OF b] by (simp add: c' d)
  show "LocationUpdateThreshold c' = LocationUpdateThreshold c"
    using BroadcastChanges_keeps(2)[OF b] by (simp add: c')
  show "MaxTraceDistance c' = MaxTraceDistance c"
    using BroadcastChanges_keeps(3)[OF b] by (simp add: c')
  show "CrosshairScreenPosition c' = CrosshairScreenPosition c"
    using BroadcastChanges_keeps(4)[OF b] by (simp add: c')
  show "FriendlyActorTags c' = FriendlyActorTags c"
    using BroadcastChanges_keeps(5)[OF b] by (simp add: c')
  show "InteractableActorTags c' = InteractableActorTags c"
    using BroadcastChanges_keeps(6)[OF b] by (simp add: c')
qed

lemma PerformAimTrace_config:
  assumes "MaxTraceDistance c' = MaxTraceDistance c"
    and "CrosshairScreenPosition c' = CrosshairScreenPosition c"
    and "FriendlyActorTags c' = FriendlyActorTags c"
    and "InteractableActorTags c' = InteractableActorTags c"
  shows "PerformAimTrace c' w = PerformAimTrace c w"
proof -
  have seg: "\<And>ow. TraceSegment c' w ow = TraceSegment c w ow"
    unfolding TraceSegment_def assms by (rule refl)
  have cl: "\<And>h. ClassifyHitActor c' w h = ClassifyHitActor c w h"
    unfolding ClassifyHitActor_def assms by (rule refl)
  show ?thesis
    unfolding PerformAimTrace_def seg cl assms(1) by (rule refl)
qed


lemma Dist_self: "Dist a a = 0"
  by (simp add: Dist_def)

lemma RequestAimUpdates_quiet:
  assumes "\<forall>w \<in> set ws. Owner w \<noteq> None \<and> HasWorld w
             \<and> HitActor (PerformAimTrace c w) = WeakGet w (PreviousTargetActor c)
             \<and> Dist (PreviousAimLocation c) (AimLocation (PerformAimTrace c w))
                 \<le> LocationUpdateThreshold c"
  shows "\<forall>evs \<in> set (snd (RequestAimUpdates c ws)).
           filter IsTargetChanged evs = [] \<and> filter IsLocationUpdated evs = []"
  using assms
proof (induction ws arbitrary: c)
  case Nil
  then show ?case by simp
next
  case (Cons w ws)
  obtain c1 evs d where r: "RequestAimUpdate c w = (c1, evs, d)"
    by (cases "RequestAimUpdate c w") auto
  from Cons.prems obtain ow where o: "Owner w = Some ow" and hw: "HasWorld w"
    and t: "HitActor (PerformAimTrace c w) = WeakGet w (PreviousTargetActor c)"
    and l: "Dist (PreviousAimLocation c) (AimLocation (PerformAimTrace c w))
              \<le> LocationUpdateThreshold c"
    by auto
  note res = RequestAimUpdate_result[OF o hw r]
  have e1: "filter IsTargetChanged evs = []" using res(2) t by (simp add: res(1))
  have e2: "filter IsLocationUpdated evs = []" using res(3) l by (simp add: res(1))
  have p1: "PreviousTargetActor c1 = PreviousTargetActor c" using res(4) t by (simp add: res(1))
  have p2: "PreviousAimLocation c1 = PreviousAimLocation c" using res(5) l by (simp add: res(1))
  have tr: "\<And>w'. PerformAimTrace c1 w' = PerformAimTrace c w'"
    by (rule PerformAimTrace_config[OF res(7) res(8) res(9) res(10)])
  have rest: "\<forall>evs \<in> set (snd (RequestAimUpdates c1 ws)).
           filter IsTargetChanged evs = [] \<and> filter IsLocationUpdated evs = []"
    using Cons.prems by (intro Cons.IH) (simp add: tr p1 p2 res(6))
  show ?case
    using r e1 e2 rest by (simp add: case_prod_beta)
qed

lemma RequestAimUpdates_same_world:
  assumes "0 \<le> LocationUpdateThreshold c" and "Owner w \<noteq> None" and "HasWorld w"
    and "\<forall>a. HitActor (PerformAimTrace c w) = Some a \<longrightarrow> IsValidActor w a"
  shows "\<forall>evs \<in> set (tl (snd (RequestAimUpdates c (replicate n w)))).
           filter IsTargetChanged evs = [] \<and> filter IsLocationUpdated evs = []"
proof (cases n)
  case 0
  then show ?thesis by simp
next
  case (Suc k)
  obtain c1 evs d where r: "RequestAimUpdate c w = (c1, evs, d)"
    by (cases "RequestAimUpdate c w") auto
  from assms(2) obtain ow where o: "Owner w = Some ow" by auto
  note res = RequestAimUpdate_result[OF o assms(3) r]
  have tr: "\<And>w'. PerformAimTrace c1 w' = PerformAimTrace c w'"
    by (rule PerformAimTrace_config[OF res(7) res(8) res(9) res(10)])
  have valid: "WeakGet w (HitActor d) = HitActor d"
    using assms(4) by (cases "HitActor d") (simp_all add: WeakGet_def res(1))
  have t: "HitActor (PerformAimTrace c1 w) = WeakGet w (PreviousTargetActor c1)"
    using res(4) valid by (simp add: tr res(1)[symmetric])
  have l: "Dist (PreviousAimLocation c1) (AimLocation (PerformAimTrace c1 w))
             \<le> LocationUpdateThreshold c1"
    using res(5) assms(1) by (simp add: tr res(1)[symmetric] res(6) Dist_self)
  have "\<forall>evs \<in> set (snd (RequestAimUpdates c1 (replicate k w))).
           filter IsTargetChanged evs = [] \<and> filter IsLocationUpdated evs = []"
    using o assms(3) t l by (intro RequestAimUpdates_quiet) simp
  then show ?thesis
    using Suc r by (simp add: case_prod_beta)
qed


lemma filter_concat_empty:
  "\<forall>xs \<in> set xss. filter P xs = [] \<Longrightarrow> filter P (concat xss) = []"
  by (induction xss) simp_all

text \<open>
  Claim C7, amended. In one call of \<open>RequestAimUpdate\<close> (owner and world present) a
  target-changed notification is broadcast exactly when the resolved target differs from
  the remembered target (\<open>PreviousTargetActor\<close>, read as absent once that actor is no
  longer valid), and a location-updated notification exactly when the resolved aim location
  is farther than the threshold from the remembered location (\<open>PreviousAimLocation\<close>: the
  location of \<open>BeginPlay\<close> or of the last location-updated notification, not the previous
  snapshot's); each notification replaces the remembered value. So a run of calls whose
  resolved targets all equal the remembered target and whose resolved locations all lie
  within the threshold of the remembered location broadcasts neither notification; and with
  a threshold that is not negative, repeated calls in one unchanged world broadcast neither
  after the first call.
\<close>

theorem change_notifications:
  "(Owner w = Some ow \<and> HasWorld w \<and> RequestAimUpdate c w = (c', evs, d)
      \<longrightarrow> filter IsTargetChanged evs =
            (if WeakGet w (PreviousTargetActor c) \<noteq> HitActor d
             then [OnAimTargetChanged (HitActor d) (TraceResult d)] else [])
          \<and> filter IsLocationUpdated evs =
            (if LocationUpdateThreshold c < Dist (PreviousAimLocation c) (AimLocation d)
             then [OnAimLocationUpdated (AimLocation d) (AimDirection d)] else [])
          \<and> PreviousTargetActor c' =
            (if WeakGet w (PreviousTargetActor c) \<noteq> HitActor d then HitActor d
             else PreviousTargetActor c)
          \<and> PreviousAimLocation c' =
            (if LocationUpdateThreshold c < Dist (PreviousAimLocation c) (AimLocation d)
             then AimLocation d else PreviousAimLocation c))
   \<and> ((\<forall>v \<in> set ws. Owner v \<noteq> None \<and> HasWorld v
           \<and> HitActor (PerformAimTrace c v) = WeakGet v (PreviousTargetActor c)
           \<and> Dist (PreviousAimLocation c) (AimLocation (PerformAimTrace c v))
               \<le> LocationUpdateThreshold c)
      \<longrightarrow> filter IsTargetChanged (concat (snd (RequestAimUpdates c ws))) = []
          \<and> filter IsLocationUpdated (concat (snd (RequestAimUpdates c ws))) = [])
   \<and> (0 \<le> LocationUpdateThreshold c \<and> Owner w \<noteq> None \<and> HasWorld w
        \<and> (\<forall>a. HitActor (PerformAimTrace c w) = Some a \<longrightarrow> IsValidActor w a)
      \<longrightarrow> filter IsTargetChanged (concat (tl (snd (RequestAimUpdates c (replicate n w))))) = []
          \<and> filter IsLocationUpdated (concat (tl (snd (RequestAimUpdates c (replicate n w)))))
              = [])"
proof (intro conjI impI)
  assume a: "Owner w = Some ow \<and> HasWorld w \<and> RequestAimUpdate c w = (c', evs, d)"
  then have o: "Owner w = Some ow" and hw: "HasWorld w"
    and r: "RequestAimUpdate c w = (c', evs, d)" by simp_all
  note res = RequestAimUpdate_result[OF o hw r]
  show "filter IsTargetChanged evs =
            (if WeakGet w (PreviousTargetActor c) \<noteq> HitActor d
             then [OnAimTargetChanged (HitActor d) (TraceResult d)] else [])"
    by (rule res(2))
  show "filter IsLocationUpdated evs =
            (if LocationUpdateThreshold c < Dist (PreviousAimLocation c) (AimLocation d)
             then [OnAimLocationUpdated (AimLocation d) (AimDirection d)] else [])"
    by (rule res(3))
  show "PreviousTargetActor c' =
            (if WeakGet w (PreviousTargetActor c) \<noteq> HitActor d then HitActor d
             else PreviousTargetActor c)"
    by (rule res(4))
  show "PreviousAimLocation c' =
            (if LocationUpdateThreshold c < Dist (PreviousAimLocation c) (AimLocation d)
             then AimLocation d else PreviousAimLocation c)"
    by (rule res(5))
next
  assume a: "\<forall>v \<in> set ws. Owner v \<noteq> None \<and> HasWorld v
           \<and> HitActor (PerformAimTrace c v) = WeakGet v (PreviousTargetActor c)
           \<and> Dist (PreviousAimLocation c) (AimLocation (PerformAimTrace c v))
               \<le> LocationUpdateThreshold c"
  note q = RequestAimUpdates_quiet[OF a]
  show "filter IsTargetChanged (concat (snd (RequestAimUpdates c ws))) = []"
    using q by (intro filter_concat_empty) simp
  show "filter IsLocationUpdated (concat (snd (RequestAimUpdates c ws))) = []"
    using q by (intro filter_concat_empty) simp
next
  assume a: "0 \<le> LocationUpdateThreshold c \<and> Owner w \<noteq> None \<and> HasWorld w
        \<and> (\<forall>a. HitActor (PerformAimTrace c w) = Some a \<longrightarrow> IsValidActor w a)"
  then have q: "\<forall>evs \<in> set (tl (snd (RequestAimUpdates c (replicate n w)))).
           filter IsTargetChanged evs = [] \<and> filter IsLocationUpdated evs = []"
    by (intro RequestAimUpdates_same_world) simp_all
  show "filter IsTargetChanged (concat (tl (snd (RequestAimUpdates c (replicate n w))))) = []"
    using q by (intro filter_concat_empty) simp
  show "filter IsLocationUpdated (concat (tl (snd (RequestAimUpdates c (replicate n w))))) = []"
    using q by (intro filter_concat_empty) simp
qed

lemma DriftWorld_basic:
  "Owner (DriftWorld x) = Some 10" "HasWorld (DriftWorld x)"
  by (simp_all add: DriftWorld_def QuietWorld_def)

lemma DriftWorld_trace:
  assumes "MaxTraceDistance c = 10000"
  shows "AimLocation (PerformAimTrace c (DriftWorld x)) = FVector (x + 10000) 0 0"
    and "HitActor (PerformAimTrace c (DriftWorld x)) = None"
proof -
  have seg: "snd (TraceSegment c (DriftWorld x) 10) = FVector (x + 10000) 0 0"
    using assms
    by (simp add: TraceSegment_def GetOwnerController_def DriftWorld_def QuietWorld_def
        VAdd_def VScale_def ForwardVector_def)
  have miss: "LineTraceSingleByChannel (DriftWorld x) (fst (TraceSegment c (DriftWorld x) 10))
                (snd (TraceSegment c (DriftWorld x) 10)) = None"
    by (simp add: DriftWorld_def QuietWorld_def)
  note m = PerformAimTrace_miss[OF DriftWorld_basic(1) DriftWorld_basic(2) miss]
  show "AimLocation (PerformAimTrace c (DriftWorld x)) = FVector (x + 10000) 0 0"
    using m(3) seg by simp
  show "HitActor (PerformAimTrace c (DriftWorld x)) = None"
    by (rule m(2))
qed

lemma DriftStart_state:
  "PreviousAimLocation DriftStart = FVector 0 0 0"
  "PreviousTargetActor DriftStart = None"
  "LocationUpdateThreshold DriftStart = 10"
  "MaxTraceDistance DriftStart = 10000"
proof -
  have m: "MaxTraceDistance UAC_AimComponent_ctor = 10000"
    by (simp add: UAC_AimComponent_ctor_def)
  note t = DriftWorld_trace[OF m, of "- 10000"]
  show "PreviousAimLocation DriftStart = FVector 0 0 0"
    using t(1) by (simp add: DriftStart_def AimBeginPlay_def Let_def DriftWorld_basic)
  show "PreviousTargetActor DriftStart = None"
    using t(2) by (simp add: DriftStart_def AimBeginPlay_def Let_def DriftWorld_basic)
  show "LocationUpdateThreshold DriftStart = 10"
    by (simp add: DriftStart_def AimBeginPlay_def Let_def DriftWorld_basic
        UAC_AimComponent_ctor_def)
  show "MaxTraceDistance DriftStart = 10000"
    by (simp add: DriftStart_def AimBeginPlay_def Let_def DriftWorld_basic
        UAC_AimComponent_ctor_def)
qed

lemma Dist_on_X: "Dist (FVector a 0 0) (FVector b 0 0) = \<bar>b - a\<bar>"
  by (simp add: Dist_def)


lemma drift_step:
  assumes "MaxTraceDistance c = 10000" and "PreviousTargetActor c = None"
    and "RequestAimUpdate c (DriftWorld x) = (c', evs, d)"
  shows "CountLocationUpdated evs =
           (if LocationUpdateThreshold c < Dist (PreviousAimLocation c) (FVector (x + 10000) 0 0)
            then 1 else 0)"
    and "CountTargetChanged evs = 0"
    and "PreviousAimLocation c' =
           (if LocationUpdateThreshold c < Dist (PreviousAimLocation c) (FVector (x + 10000) 0 0)
            then FVector (x + 10000) 0 0 else PreviousAimLocation c)"
    and "PreviousTargetActor c' = None"
    and "MaxTraceDistance c' = 10000"
    and "LocationUpdateThreshold c' = LocationUpdateThreshold c"
proof -
  note res = RequestAimUpdate_result[OF DriftWorld_basic(1) DriftWorld_basic(2) assms(3)]
  note t = DriftWorld_trace[OF assms(1), of x]
  have al: "AimLocation d = FVector (x + 10000) 0 0" using t(1) res(1) by simp
  have ha: "HitActor d = None" using t(2) res(1) by simp
  show "CountLocationUpdated evs =
           (if LocationUpdateThreshold c < Dist (PreviousAimLocation c) (FVector (x + 10000) 0 0)
            then 1 else 0)"
    using res(3) by (simp add: CountLocationUpdated_def al)
  show "CountTargetChanged evs = 0"
    using res(2) by (simp add: CountTargetChanged_def ha assms(2) WeakGet_def)
  show "PreviousAimLocation c' =
           (if LocationUpdateThreshold c < Dist (PreviousAimLocation c) (FVector (x + 10000) 0 0)
            then FVector (x + 10000) 0 0 else PreviousAimLocation c)"
    using res(5) by (simp add: al)
  show "PreviousTargetActor c' = None"
    using res(4) by (simp add: ha assms(2) WeakGet_def)
  show "MaxTraceDistance c' = 10000" using res(7) assms(1) by simp
  show "LocationUpdateThreshold c' = LocationUpdateThreshold c" by (rule res(6))
qed

lemma drift_two_steps:
  "map CountLocationUpdated (snd (RequestAimUpdates DriftStart [DriftWorld x, DriftWorld y]))
   = [if 10 < \<bar>x + 10000\<bar> then 1 else 0,
      if 10 < \<bar>x + 10000\<bar> then (if 10 < \<bar>y - x\<bar> then 1 else 0)
      else (if 10 < \<bar>y + 10000\<bar> then 1 else 0)]"
proof -
  obtain c1 e1 d1 where r1: "RequestAimUpdate DriftStart (DriftWorld x) = (c1, e1, d1)"
    by (cases "RequestAimUpdate DriftStart (DriftWorld x)") auto
  obtain c2 e2 d2 where r2: "RequestAimUpdate c1 (DriftWorld y) = (c2, e2, d2)"
    by (cases "RequestAimUpdate c1 (DriftWorld y)") auto
  note s1 = drift_step[OF DriftStart_state(4) DriftStart_state(2) r1]
  note s2 = drift_step[OF s1(5) s1(4) r2]
  have run: "snd (RequestAimUpdates DriftStart [DriftWorld x, DriftWorld y]) = [e1, e2]"
    by (simp add: r1 r2)
  have n1: "CountLocationUpdated e1 = (if 10 < \<bar>x + 10000\<bar> then 1 else 0)"
    using s1(1) by (simp add: DriftStart_state Dist_on_X)
  have p1: "PreviousAimLocation c1 =
              (if 10 < \<bar>x + 10000\<bar> then FVector (x + 10000) 0 0 else FVector 0 0 0)"
    using s1(3) by (simp add: DriftStart_state Dist_on_X)
  have n2: "CountLocationUpdated e2 =
              (if 10 < \<bar>x + 10000\<bar> then (if 10 < \<bar>y - x\<bar> then 1 else 0)
               else (if 10 < \<bar>y + 10000\<bar> then 1 else 0))"
    using s2(1) by (simp add: s1(6) p1 DriftStart_state Dist_on_X)
  show ?thesis unfolding run by (simp add: n1 n2)
qed

text \<open>
  The claim as stated measures the movement from one snapshot to the next. With the
  threshold 10 and the remembered location (0, 0, 0), the snapshots (6, 0, 0) and then
  (12, 0, 0) have the same (absent) target and lie 6 apart, and the second call broadcasts a
  location-updated notification; the snapshots (9, 0, 0) and then (-9, 0, 0) lie 18 apart,
  and neither call broadcasts one.
\<close>

theorem change_notifications_counterexample:
  "LocationUpdateThreshold DriftStart = 10
   \<and> HitActor (PerformAimTrace DriftStart (DriftWorld (- 9994))) = None
   \<and> HitActor (PerformAimTrace DriftStart (DriftWorld (- 9988))) = None
   \<and> AimLocation (PerformAimTrace DriftStart (DriftWorld (- 9994))) = FVector 6 0 0
   \<and> AimLocation (PerformAimTrace DriftStart (DriftWorld (- 9988))) = FVector 12 0 0
   \<and> Dist (FVector 6 0 0) (FVector 12 0 0) = 6
   \<and> map CountLocationUpdated
        (snd (RequestAimUpdates DriftStart [DriftWorld (- 9994), DriftWorld (- 9988)])) = [0, 1]
   \<and> AimLocation (PerformAimTrace DriftStart (DriftWorld (- 9991))) = FVector 9 0 0
   \<and> AimLocation (PerformAimTrace DriftStart (DriftWorld (- 10009))) = FVector (- 9) 0 0
   \<and> Dist (FVector 9 0 0) (FVector (- 9) 0 0) = 18
   \<and> map CountLocationUpdated
        (snd (RequestAimUpdates DriftStart [DriftWorld (- 9991), DriftWorld (- 10009)])) = [0, 0]"
proof -
  note m = DriftStart_state(4)
  have a: "AimLocation (PerformAimTrace DriftStart (DriftWorld (- 9994))) = FVector 6 0 0"
    "AimLocation (PerformAimTrace DriftStart (DriftWorld (- 9988))) = FVector 12 0 0"
    "AimLocation (PerformAimTrace DriftStart (DriftWorld (- 9991))) = FVector 9 0 0"
    "AimLocation (PerformAimTrace DriftStart (DriftWorld (- 10009))) = FVector (- 9) 0 0"
    using DriftWorld_trace(1)[OF m, of "- 9994"] DriftWorld_trace(1)[OF m, of "- 9988"]
      DriftWorld_trace(1)[OF m, of "- 9991"] DriftWorld_trace(1)[OF m, of "- 10009"]
    by simp_all
  have r1: "map CountLocationUpdated
        (snd (RequestAimUpdates DriftStart [DriftWorld (- 9994), DriftWorld (- 9988)])) = [0, 1]"
    by (subst drift_two_steps) simp
  have r2: "map CountLocationUpdated
        (snd (RequestAimUpdates DriftStart [DriftWorld (- 9991), DriftWorld (- 10009)])) = [0, 0]"
    by (subst drift_two_steps) simp
  show ?thesis
    using a r1 r2 DriftWorld_trace(2)[OF m]
    by (simp add: DriftStart_state(3) Dist_on_X)
qed

theorem change_notifications_witness:
  "CountLocationUpdated (fst (snd (RequestAimUpdate DriftStart (DriftWorld (- 9980))))) = 1
   \<and> CountTargetChanged (fst (snd (RequestAimUpdate DriftStart (DriftWorld (- 9980))))) = 0
   \<and> PreviousAimLocation (fst (RequestAimUpdate DriftStart (DriftWorld (- 9980))))
       = FVector 20 0 0
   \<and> filter IsTargetChanged
        (concat (snd (RequestAimUpdates DriftStart [DriftWorld (- 9994), DriftWorld (- 10005)])))
       = []
   \<and> filter IsLocationUpdated
        (concat (snd (RequestAimUpdates DriftStart [DriftWorld (- 9994), DriftWorld (- 10005)])))
       = []
   \<and> filter IsTargetChanged
        (concat (tl (snd (RequestAimUpdates DriftStart (replicate 3 (DriftWorld 0)))))) = []
   \<and> filter IsLocationUpdated
        (concat (tl (snd (RequestAimUpdates DriftStart (replicate 3 (DriftWorld 0)))))) = []"
proof -
  note m = DriftStart_state(4)
  obtain c1 e1 d1 where r: "RequestAimUpdate DriftStart (DriftWorld (- 9980)) = (c1, e1, d1)"
    by (cases "RequestAimUpdate DriftStart (DriftWorld (- 9980))") auto
  have d1: "d1 = PerformAimTrace DriftStart (DriftWorld (- 9980))"
    using RequestAimUpdate_data(1)[OF DriftWorld_basic(1)[of "- 9980"]
        DriftWorld_basic(2)[of "- 9980"], of DriftStart] r by simp
  have al: "AimLocation d1 = FVector 20 0 0" and ha: "HitActor d1 = None"
    using DriftWorld_trace[OF m, of "- 9980"] d1 by simp_all
  have one: "CountLocationUpdated e1 = 1 \<and> CountTargetChanged e1 = 0
             \<and> PreviousAimLocation c1 = FVector 20 0 0"
    using change_notifications[where w = "DriftWorld (- 9980)" and ow = 10 and c = DriftStart
        and c' = c1 and evs = e1 and d = d1] r
    by (simp add: DriftWorld_basic al ha DriftStart_state Dist_on_X WeakGet_def
        CountLocationUpdated_def CountTargetChanged_def)
  have hyp: "\<forall>v \<in> set [DriftWorld (- 9994), DriftWorld (- 10005)].
           Owner v \<noteq> None \<and> HasWorld v
           \<and> HitActor (PerformAimTrace DriftStart v) = WeakGet v (PreviousTargetActor DriftStart)
           \<and> Dist (PreviousAimLocation DriftStart) (AimLocation (PerformAimTrace DriftStart v))
               \<le> LocationUpdateThreshold DriftStart"
    using DriftWorld_trace[OF m, of "- 9994"] DriftWorld_trace[OF m, of "- 10005"]
    by (simp add: DriftWorld_basic DriftStart_state Dist_on_X WeakGet_def)
  have two: "filter IsTargetChanged
        (concat (snd (RequestAimUpdates DriftStart [DriftWorld (- 9994), DriftWorld (- 10005)])))
       = []
   \<and> filter IsLocationUpdated
        (concat (snd (RequestAimUpdates DriftStart [DriftWorld (- 9994), DriftWorld (- 10005)])))
       = []"
    using change_notifications[where c = DriftStart
        and ws = "[DriftWorld (- 9994), DriftWorld (- 10005)]"] hyp
    by blast
  have hyp3: "0 \<le> LocationUpdateThreshold DriftStart \<and> Owner (DriftWorld 0) \<noteq> None
        \<and> HasWorld (DriftWorld 0)
        \<and> (\<forall>a. HitActor (PerformAimTrace DriftStart (DriftWorld 0)) = Some a
              \<longrightarrow> IsValidActor (DriftWorld 0) a)"
    using DriftWorld_trace(2)[OF m, of 0]
    by (simp add: DriftWorld_basic DriftStart_state)
  have three: "filter IsTargetChanged
        (concat (tl (snd (RequestAimUpdates DriftStart (replicate 3 (DriftWorld 0)))))) = []
   \<and> filter IsLocationUpdated
        (concat (tl (snd (RequestAimUpdates DriftStart (replicate 3 (DriftWorld 0)))))) = []"
    using change_notifications[where c = DriftStart and w = "DriftWorld 0" and n = 3] hyp3
    by blast
  show ?thesis using one two three by (simp add: r)
qed

subsection \<open>The projectile\<close>

lemma Destroy_live:
  assumes "CollisionSphere p" and "\<not> IsDestroyed p"
  shows "Destroy p =
           (p\<lparr> LifetimeTimerSet := False, OverlapBound := False, IsDestroyed := True \<rparr>,
            [OnProjectileDestroyed (bDidHitSomething p)])"
  using assms by (simp add: Destroy_def EndPlay_def Let_def)

lemma Deliver_unbound:
  assumes "\<not> OverlapBound p" and "\<not> LifetimeTimerSet p" and "IsDestroyed p"
  shows "Deliver p w s = (p, [])"
  using assms by (cases s) (simp_all add: Deliver_def Destroy_def)

lemma DeliverAll_unbound:
  assumes "\<not> OverlapBound p" and "\<not> LifetimeTimerSet p" and "IsDestroyed p"
  shows "DeliverAll p sigs = (p, [])"
  using assms
proof (induction sigs)
  case Nil
  then show ?case by simp
next
  case (Cons a sigs)
  then show ?case by (cases a) (simp add: Deliver_unbound)
qed

lemma IsFriendlyActor_iff:
  "IsFriendlyActor p w (Some other) =
     (\<exists>ow t. WeakGet w (CachedOwner p) = Some ow \<and> GenericTeamId w ow = Some t
             \<and> GenericTeamId w other = Some t \<and> t \<noteq> NoTeam)"
  by (auto simp add: IsFriendlyActor_def Let_def split: option.splits)

lemma OnOverlapBegin_ignored:
  assumes "\<not> Qualifies p w other"
  shows "OnOverlapBegin p w (Some other) l h = (p, [])"
  using assms by (auto simp add: OnOverlapBegin_def Qualifies_def)

lemma OnOverlapBegin_null: "OnOverlapBegin p w None l h = (p, [])"
  by (simp add: OnOverlapBegin_def)

lemma OnOverlapBegin_hit:
  assumes "Qualifies p w other" and "CollisionSphere p" and "\<not> IsDestroyed p"
    and "OnOverlapBegin p w (Some other) l h = (p', ev)"
  shows "p' = p\<lparr> bDidHitSomething := True, LifetimeTimerSet := False, OverlapBound := False,
                  IsDestroyed := True \<rparr>"
    and "length (filter IsHitEvent ev) = 1"
    and "length (filter IsDamage ev) = (if 0 < Damage p then 1 else 0)"
    and "filter IsDestroyedEvent ev = [OnProjectileDestroyed True]"
proof -
  let ?p1 = "p\<lparr> bDidHitSomething := True \<rparr>"
  have d: "Destroy ?p1 =
           (?p1\<lparr> LifetimeTimerSet := False, OverlapBound := False, IsDestroyed := True \<rparr>,
            [OnProjectileDestroyed True])"
    using Destroy_live[of ?p1] assms(2,3) by simp
  have imp: "\<And>a b. filter IsHitEvent (SpawnImpactEffect ?p1 a b) = []
              \<and> filter IsDamage (SpawnImpactEffect ?p1 a b) = []
              \<and> filter IsDestroyedEvent (SpawnImpactEffect ?p1 a b) = []"
    by (simp add: SpawnImpactEffect_def)
  have dmg: "\<And>hr. filter IsHitEvent (ApplyDamage ?p1 w (Some other) hr) = []
              \<and> length (filter IsDamage (ApplyDamage ?p1 w (Some other) hr))
                  = (if 0 < Damage p then 1 else 0)
              \<and> filter IsDestroyedEvent (ApplyDamage ?p1 w (Some other) hr) = []"
    by (simp add: ApplyDamage_def Let_def)
  have hh: "\<And>hr. HandleHit ?p1 w (Some other) hr =
              (?p1\<lparr> LifetimeTimerSet := False, OverlapBound := False, IsDestroyed := True \<rparr>,
               ApplyDamage ?p1 w (Some other) hr
               @ SpawnImpactEffect ?p1 (ImpactPoint hr) (ImpactNormal hr)
               @ [OnProjectileHit (Some other) hr] @ [OnProjectileDestroyed True])"
    by (simp add: HandleHit_def Let_def d)
  obtain hr where o: "OnOverlapBegin p w (Some other) l h = HandleHit ?p1 w (Some other) hr"
    using assms(1) by (simp add: OnOverlapBegin_def Qualifies_def Let_def)
  from o assms(4) hh[of hr]
  have p': "p' = ?p1\<lparr> LifetimeTimerSet := False, OverlapBound := False, IsDestroyed := True \<rparr>"
    and ev: "ev = ApplyDamage ?p1 w (Some other) hr
               @ SpawnImpactEffect ?p1 (ImpactPoint hr) (ImpactNormal hr)
               @ [OnProjectileHit (Some other) hr] @ [OnProjectileDestroyed True]"
    by simp_all
  show "p' = p\<lparr> bDidHitSomething := True, LifetimeTimerSet := False, OverlapBound := False,
                  IsDestroyed := True \<rparr>"
    using p' by simp
  show "length (filter IsHitEvent ev) = 1" by (simp add: ev imp dmg)
  show "length (filter IsDamage ev) = (if 0 < Damage p then 1 else 0)"
    by (simp add: ev imp dmg)
  show "filter IsDestroyedEvent ev = [OnProjectileDestroyed True]" by (simp add: ev imp dmg)
qed


lemma Deliver_cases:
  assumes "CollisionSphere p" and "\<not> IsDestroyed p" and "Deliver p w s = (p', ev)"
  shows "(p' = p \<and> ev = [])
         \<or> (\<not> OverlapBound p' \<and> \<not> LifetimeTimerSet p' \<and> IsDestroyed p'
            \<and> length (filter IsHitEvent ev) \<le> 1 \<and> length (filter IsDamage ev) \<le> 1
            \<and> length (filter IsDestroyedEvent ev) \<le> 1)"
proof (cases s)
  case (Overlap a l h)
  show ?thesis
  proof (cases "OverlapBound p \<and> (\<exists>other. a = Some other \<and> Qualifies p w other)")
    case True
    then obtain other where a: "a = Some other" and q: "Qualifies p w other"
      and b: "OverlapBound p" by auto
    have o: "OnOverlapBegin p w (Some other) l h = (p', ev)"
      using assms(3) Overlap a b by (simp add: Deliver_def)
    note hit = OnOverlapBegin_hit[OF q assms(1,2) o]
    show ?thesis using hit by simp
  next
    case False
    then have "Deliver p w s = (p, [])"
      using Overlap
      by (cases a) (auto simp add: Deliver_def OnOverlapBegin_null OnOverlapBegin_ignored)
    then show ?thesis using assms(3) by simp
  qed
next
  case LifetimeExpired
  show ?thesis
  proof (cases "LifetimeTimerSet p")
    case True
    then have "Deliver p w s = Destroy p"
      using LifetimeExpired by (simp add: Deliver_def OnLifetimeExpired_def)
    then show ?thesis using assms(3) Destroy_live[OF assms(1,2)] by auto
  next
    case False
    then have "Deliver p w s = (p, [])"
      using LifetimeExpired by (simp add: Deliver_def)
    then show ?thesis using assms(3) by simp
  qed
next
  case DestroyedByOther
  then have "Deliver p w s = Destroy p" by (simp add: Deliver_def)
  then show ?thesis using assms(3) Destroy_live[OF assms(1,2)] by auto
qed

lemma DeliverAll_counts:
  assumes "CollisionSphere p" and "\<not> IsDestroyed p"
  shows "length (filter IsHitEvent (snd (DeliverAll p sigs))) \<le> 1
         \<and> length (filter IsDamage (snd (DeliverAll p sigs))) \<le> 1
         \<and> length (filter IsDestroyedEvent (snd (DeliverAll p sigs))) \<le> 1"
  using assms
proof (induction sigs)
  case Nil
  then show ?case by simp
next
  case (Cons a sigs)
  obtain w s where a: "a = (w, s)" by (cases a) auto
  obtain p' ev where d: "Deliver p w s = (p', ev)" by (cases "Deliver p w s") auto
  from Deliver_cases[OF Cons.prems d]
  show ?case
  proof
    assume "p' = p \<and> ev = []"
    then show ?thesis using Cons a d by (simp add: case_prod_beta)
  next
    assume dead: "\<not> OverlapBound p' \<and> \<not> LifetimeTimerSet p' \<and> IsDestroyed p'
            \<and> length (filter IsHitEvent ev) \<le> 1 \<and> length (filter IsDamage ev) \<le> 1
            \<and> length (filter IsDestroyedEvent ev) \<le> 1"
    then have "DeliverAll p' sigs = (p', [])" by (simp add: DeliverAll_unbound)
    then show ?thesis using dead a d by simp
  qed
qed

text \<open>
  Claim C1. A projectile resolves at most once. For a projectile that is not destroyed (and
  has its collision sphere), the delivery of a qualifying overlap publishes exactly one hit
  event, applies damage exactly once (when the damage amount is positive), publishes exactly
  one destruction event, flagged as a hit, and destroys the projectile; after it, every
  further sequence of overlaps, expiry signals and destroy calls, in any order and in the
  same tick or a later one, leaves the projectile as it is and publishes nothing: \<open>Destroy\<close> runs
  \<open>EndPlay\<close>, which clears the lifetime timer and unbinds the overlap handler. Over any
  sequence of signals at most one hit event, at most one damage and at most one destruction
  event are published.
\<close>

theorem at_most_one_resolution:
  assumes "CollisionSphere p" and "\<not> IsDestroyed p"
  shows "(OverlapBound p \<and> Qualifies p w other
            \<and> Deliver p w (Overlap (Some other) l h) = (p', ev)
          \<longrightarrow> length (filter IsHitEvent ev) = 1
              \<and> length (filter IsDamage ev) = (if 0 < Damage p then 1 else 0)
              \<and> filter IsDestroyedEvent ev = [OnProjectileDestroyed True]
              \<and> IsDestroyed p'
              \<and> DeliverAll p' later = (p', []))
         \<and> length (filter IsHitEvent (snd (DeliverAll p sigs))) \<le> 1
         \<and> length (filter IsDamage (snd (DeliverAll p sigs))) \<le> 1
         \<and> length (filter IsDestroyedEvent (snd (DeliverAll p sigs))) \<le> 1"
proof -
  have first: "OverlapBound p \<and> Qualifies p w other
            \<and> Deliver p w (Overlap (Some other) l h) = (p', ev)
          \<Longrightarrow> length (filter IsHitEvent ev) = 1
              \<and> length (filter IsDamage ev) = (if 0 < Damage p then 1 else 0)
              \<and> filter IsDestroyedEvent ev = [OnProjectileDestroyed True]
              \<and> IsDestroyed p'
              \<and> DeliverAll p' later = (p', [])"
  proof -
    assume a: "OverlapBound p \<and> Qualifies p w other
            \<and> Deliver p w (Overlap (Some other) l h) = (p', ev)"
    then have q: "Qualifies p w other"
      and o: "OnOverlapBegin p w (Some other) l h = (p', ev)"
      by (auto simp add: Deliver_def)
    note hit = OnOverlapBegin_hit[OF q assms o]
    have dead: "\<not> OverlapBound p'" "\<not> LifetimeTimerSet p'" "IsDestroyed p'"
      using hit(1) by simp_all
    show ?thesis
      using hit(2,3,4) dead DeliverAll_unbound[OF dead] by simp
  qed
  show ?thesis using first DeliverAll_counts[OF assms] by blast
qed

lemma LiveProjectile_state:
  "CollisionSphere LiveProjectile" "\<not> IsDestroyed LiveProjectile" "OverlapBound LiveProjectile"
  "LifetimeTimerSet LiveProjectile" "Damage LiveProjectile = 15"
  "Qualifies LiveProjectile QuietWorld 20"
  by (simp_all add: LiveProjectile_def InitializeProjectile_def ProjectileBeginPlay_def
      ABaseProjectile_ctor_def QuietWorld_def WeakGet_def Let_def Qualifies_def
      IsFriendlyActor_def)

theorem at_most_one_resolution_witness:
  "length (filter IsHitEvent (snd (DeliverAll LiveProjectile
      [(QuietWorld, Overlap (Some 20) None NoSweep), (QuietWorld, Overlap (Some 21) None NoSweep),
       (QuietWorld, LifetimeExpired), (QuietWorld, DestroyedByOther)]))) = 1
   \<and> length (filter IsDamage (snd (DeliverAll LiveProjectile
      [(QuietWorld, Overlap (Some 20) None NoSweep), (QuietWorld, Overlap (Some 21) None NoSweep),
       (QuietWorld, LifetimeExpired), (QuietWorld, DestroyedByOther)]))) = 1
   \<and> filter IsDestroyedEvent (snd (DeliverAll LiveProjectile
      [(QuietWorld, Overlap (Some 20) None NoSweep), (QuietWorld, Overlap (Some 21) None NoSweep),
       (QuietWorld, LifetimeExpired), (QuietWorld, DestroyedByOther)])) = [OnProjectileDestroyed True]"
proof -
  let ?later = "[(QuietWorld, Overlap (Some 21) None NoSweep), (QuietWorld, LifetimeExpired),
                 (QuietWorld, DestroyedByOther)]"
  obtain p' ev where d: "Deliver LiveProjectile QuietWorld (Overlap (Some 20) None NoSweep) = (p', ev)"
    by (cases "Deliver LiveProjectile QuietWorld (Overlap (Some 20) None NoSweep)") auto
  have t: "length (filter IsHitEvent ev) = 1
              \<and> length (filter IsDamage ev) = 1
              \<and> filter IsDestroyedEvent ev = [OnProjectileDestroyed True]
              \<and> DeliverAll p' ?later = (p', [])"
    using at_most_one_resolution[OF LiveProjectile_state(1,2), where w = QuietWorld
        and other = 20 and l = None and h = NoSweep and p' = p' and ev = ev and later = ?later]
      LiveProjectile_state(3,5,6) d
    by simp
  have run: "DeliverAll LiveProjectile
      ((QuietWorld, Overlap (Some 20) None NoSweep) # ?later) = (p', ev)"
    using d t by (simp del: DeliverAll.simps add: DeliverAll.simps(2)[of LiveProjectile])
  show ?thesis using t by (simp only: run snd_conv)
qed


text \<open>
  Claim C3, amended. A candidate is friendly exactly when the projectile has a recorded
  launcher (\<open>CachedOwner\<close>, set by \<open>InitializeProjectile\<close>) that is still valid, launcher
  and candidate both expose a team identity, and the two identities are equal and not
  \<open>NoTeam\<close>. For a friendly candidate \<open>OnOverlapBegin\<close> changes nothing and publishes
  nothing: no damage, no hit event, no destruction. A candidate without team identity, or
  with either side's identity absent or \<open>NoTeam\<close>, or met by a projectile whose launcher
  was never recorded or is no longer valid, is not friendly, and when it is none of the
  projectile, the launcher and the instigator, the overlap resolves as a hit.
\<close>

theorem friendly_exemption:
  "(IsFriendlyActor p w (Some other) =
      (\<exists>ow t. WeakGet w (CachedOwner p) = Some ow \<and> GenericTeamId w ow = Some t
              \<and> GenericTeamId w other = Some t \<and> t \<noteq> NoTeam))
   \<and> (WeakGet w (CachedOwner p) = Some ow \<and> GenericTeamId w ow = Some t
        \<and> GenericTeamId w other = Some t \<and> t \<noteq> NoTeam
      \<longrightarrow> OnOverlapBegin p w (Some other) l h = (p, [])
          \<and> Deliver p w (Overlap (Some other) l h) = (p, []))
   \<and> (GenericTeamId w other = None \<or> GenericTeamId w other = Some NoTeam
        \<or> WeakGet w (CachedOwner p) = None
        \<or> (WeakGet w (CachedOwner p) = Some ow
            \<and> (GenericTeamId w ow = None \<or> GenericTeamId w ow = Some NoTeam))
      \<longrightarrow> \<not> IsFriendlyActor p w (Some other))
   \<and> (CollisionSphere p \<and> \<not> IsDestroyed p \<and> other \<noteq> ThisActor p
        \<and> Some other \<noteq> WeakGet w (CachedOwner p)
        \<and> Some other \<noteq> WeakGet w (CachedInstigator p)
        \<and> \<not> IsFriendlyActor p w (Some other)
      \<longrightarrow> length (filter IsHitEvent (snd (OnOverlapBegin p w (Some other) l h))) = 1
          \<and> IsDestroyed (fst (OnOverlapBegin p w (Some other) l h)))"
proof (intro conjI impI)
  show "IsFriendlyActor p w (Some other) =
      (\<exists>ow t. WeakGet w (CachedOwner p) = Some ow \<and> GenericTeamId w ow = Some t
              \<and> GenericTeamId w other = Some t \<and> t \<noteq> NoTeam)"
    by (rule IsFriendlyActor_iff)
next
  assume a: "WeakGet w (CachedOwner p) = Some ow \<and> GenericTeamId w ow = Some t
        \<and> GenericTeamId w other = Some t \<and> t \<noteq> NoTeam"
  then have f: "IsFriendlyActor p w (Some other)"
    by (auto simp add: IsFriendlyActor_iff)
  then have nq: "\<not> Qualifies p w other" by (simp add: Qualifies_def)
  show o: "OnOverlapBegin p w (Some other) l h = (p, [])"
    by (rule OnOverlapBegin_ignored[OF nq])
  show "Deliver p w (Overlap (Some other) l h) = (p, [])"
    using o by (simp add: Deliver_def)
next
  assume "GenericTeamId w other = None \<or> GenericTeamId w other = Some NoTeam
        \<or> WeakGet w (CachedOwner p) = None
        \<or> (WeakGet w (CachedOwner p) = Some ow
            \<and> (GenericTeamId w ow = None \<or> GenericTeamId w ow = Some NoTeam))"
  then show "\<not> IsFriendlyActor p w (Some other)"
    by (auto simp add: IsFriendlyActor_iff)
next
  assume a: "CollisionSphere p \<and> \<not> IsDestroyed p \<and> other \<noteq> ThisActor p
        \<and> Some other \<noteq> WeakGet w (CachedOwner p)
        \<and> Some other \<noteq> WeakGet w (CachedInstigator p)
        \<and> \<not> IsFriendlyActor p w (Some other)"
  then have q: "Qualifies p w other" and cs: "CollisionSphere p" and nd: "\<not> IsDestroyed p"
    by (simp_all add: Qualifies_def)
  obtain p' ev where o: "OnOverlapBegin p w (Some other) l h = (p', ev)"
    by (cases "OnOverlapBegin p w (Some other) l h") auto
  note hit = OnOverlapBegin_hit[OF q cs nd o]
  show "length (filter IsHitEvent (snd (OnOverlapBegin p w (Some other) l h))) = 1"
    using hit(2) o by simp
  show "IsDestroyed (fst (OnOverlapBegin p w (Some other) l h))"
    using hit(1) o by simp
qed

lemma FriendlyShot_state:
  "CollisionSphere FriendlyShot" "\<not> IsDestroyed FriendlyShot" "ThisActor FriendlyShot = 100"
  "WeakGet TeamWorld (CachedOwner FriendlyShot) = Some 10"
  "WeakGet TeamWorld (CachedInstigator FriendlyShot) = None"
  by (simp_all add: FriendlyShot_def InitializeProjectile_def ProjectileBeginPlay_def
      ABaseProjectile_ctor_def TeamWorld_def QuietWorld_def WeakGet_def Let_def)

lemma TeamWorld_teams:
  "GenericTeamId TeamWorld 10 = Some 1" "GenericTeamId TeamWorld 4 = Some 1"
  "GenericTeamId TeamWorld 5 = Some 2" "GenericTeamId TeamWorld 6 = None"
  by (simp_all add: TeamWorld_def QuietWorld_def)

theorem friendly_exemption_witness:
  "OnOverlapBegin FriendlyShot TeamWorld (Some 4) None NoSweep = (FriendlyShot, [])
   \<and> Deliver FriendlyShot TeamWorld (Overlap (Some 4) None NoSweep) = (FriendlyShot, [])
   \<and> \<not> IsFriendlyActor FriendlyShot TeamWorld (Some 6)
   \<and> \<not> IsFriendlyActor FriendlyShot TeamWorld (Some 5)
   \<and> length (filter IsHitEvent (snd (OnOverlapBegin FriendlyShot TeamWorld (Some 6) None NoSweep)))
       = 1
   \<and> length (filter IsHitEvent (snd (OnOverlapBegin FriendlyShot TeamWorld (Some 5) None NoSweep)))
       = 1"
proof -
  have nt: "(1 :: FGenericTeamId) \<noteq> NoTeam" by (simp add: NoTeam_def)
  have a4: "OnOverlapBegin FriendlyShot TeamWorld (Some 4) None NoSweep = (FriendlyShot, [])
            \<and> Deliver FriendlyShot TeamWorld (Overlap (Some 4) None NoSweep) = (FriendlyShot, [])"
    using friendly_exemption[where p = FriendlyShot and w = TeamWorld and other = 4 and ow = 10
        and t = 1 and l = None and h = NoSweep]
      FriendlyShot_state(4) TeamWorld_teams nt
    by blast
  have n6: "\<not> IsFriendlyActor FriendlyShot TeamWorld (Some 6)"
    using friendly_exemption[where p = FriendlyShot and w = TeamWorld and other = 6 and ow = 10]
      TeamWorld_teams(4)
    by blast
  have n5: "\<not> IsFriendlyActor FriendlyShot TeamWorld (Some 5)"
    using friendly_exemption[where p = FriendlyShot and w = TeamWorld and other = 5 and ow = 10]
      FriendlyShot_state(4) TeamWorld_teams
    by auto
  have h6: "length (filter IsHitEvent
              (snd (OnOverlapBegin FriendlyShot TeamWorld (Some 6) None NoSweep))) = 1"
    using friendly_exemption[where p = FriendlyShot and w = TeamWorld and other = 6 and ow = 10
        and l = None and h = NoSweep] FriendlyShot_state n6
    by simp
  have h5: "length (filter IsHitEvent
              (snd (OnOverlapBegin FriendlyShot TeamWorld (Some 5) None NoSweep))) = 1"
    using friendly_exemption[where p = FriendlyShot and w = TeamWorld and other = 5 and ow = 10
        and l = None and h = NoSweep] FriendlyShot_state n5
    by simp
  show ?thesis using a4 n6 n5 h6 h5 by simp
qed

text \<open>
  The claim as stated exempts every candidate whose team identity equals the launcher's.
  The launcher is held by a weak pointer and its team is read only while it is valid. Once
  the launcher (actor 10, team 1) has been destroyed in flight, the candidate 4 of the same
  team 1 is not friendly: it takes the damage of 15, the hit event is published and the
  projectile is destroyed. The same happens to a projectile that was spawned without
  \<open>InitializeProjectile\<close> (as BatAgent spawns it), whose launcher was never recorded.
\<close>

theorem friendly_exemption_counterexample:
  "CachedOwner FriendlyShot = Some 10
   \<and> GenericTeamId DeadLauncherWorld 10 = Some 1
   \<and> GenericTeamId DeadLauncherWorld 4 = Some 1
   \<and> (1 :: FGenericTeamId) \<noteq> NoTeam
   \<and> \<not> IsFriendlyActor FriendlyShot DeadLauncherWorld (Some 4)
   \<and> filter IsDamage (snd (OnOverlapBegin FriendlyShot DeadLauncherWorld (Some 4) None NoSweep))
       = [TakeDamage 4 15 None None]
   \<and> length (filter IsHitEvent
        (snd (OnOverlapBegin FriendlyShot DeadLauncherWorld (Some 4) None NoSweep))) = 1
   \<and> IsDestroyed (fst (OnOverlapBegin FriendlyShot DeadLauncherWorld (Some 4) None NoSweep))
   \<and> CachedOwner UncachedShot = None
   \<and> GenericTeamId TeamWorld 10 = Some 1
   \<and> GenericTeamId TeamWorld 4 = Some 1
   \<and> \<not> IsFriendlyActor UncachedShot TeamWorld (Some 4)
   \<and> filter IsDamage (snd (OnOverlapBegin UncachedShot TeamWorld (Some 4) None NoSweep))
       = [TakeDamage 4 15 None None]
   \<and> IsDestroyed (fst (OnOverlapBegin UncachedShot TeamWorld (Some 4) None NoSweep))"
proof -
  have nt: "(1 :: FGenericTeamId) \<noteq> NoTeam" by (simp add: NoTeam_def)
  have teams: "GenericTeamId DeadLauncherWorld 10 = Some 1"
    "GenericTeamId DeadLauncherWorld 4 = Some 1"
    by (simp_all add: DeadLauncherWorld_def TeamWorld_def QuietWorld_def)
  have fs: "CachedOwner FriendlyShot = Some 10" "CachedInstigator FriendlyShot = None"
    "ThisActor FriendlyShot = 100" "Damage FriendlyShot = 15"
    "ImpactNiagaraSystem FriendlyShot = False" "ImpactCascadeSystem FriendlyShot = False"
    by (simp_all add: FriendlyShot_def InitializeProjectile_def ProjectileBeginPlay_def
        ABaseProjectile_ctor_def TeamWorld_def QuietWorld_def WeakGet_def Let_def)
  have dead: "WeakGet DeadLauncherWorld (Some 10) = None"
    "WeakGet DeadLauncherWorld None = None"
    by (simp_all add: WeakGet_def DeadLauncherWorld_def)
  have nf: "\<not> IsFriendlyActor FriendlyShot DeadLauncherWorld (Some 4)"
    by (simp add: IsFriendlyActor_iff fs dead)
  have q: "Qualifies FriendlyShot DeadLauncherWorld 4"
    by (simp add: Qualifies_def nf dead fs)
  obtain p1 e1
    where o1: "OnOverlapBegin FriendlyShot DeadLauncherWorld (Some 4) None NoSweep = (p1, e1)"
    by (cases "OnOverlapBegin FriendlyShot DeadLauncherWorld (Some 4) None NoSweep") auto
  note hit1 = OnOverlapBegin_hit[OF q FriendlyShot_state(1) FriendlyShot_state(2) o1]
  have d1: "filter IsDamage e1 = [TakeDamage 4 15 None None]"
    using o1 q
    by (auto simp add: OnOverlapBegin_def Qualifies_def HandleHit_def ApplyDamage_def
        SpawnImpactEffect_def Destroy_def EndPlay_def Let_def dead fs
        FriendlyShot_state(1,2) split: if_splits)
  have us: "CachedOwner UncachedShot = None" "CachedInstigator UncachedShot = None"
    "ThisActor UncachedShot = 100" "Damage UncachedShot = 15"
    "ImpactNiagaraSystem UncachedShot = False" "ImpactCascadeSystem UncachedShot = False"
    "CollisionSphere UncachedShot" "\<not> IsDestroyed UncachedShot"
    by (simp_all add: UncachedShot_def ProjectileBeginPlay_def ABaseProjectile_ctor_def)
  have un: "WeakGet TeamWorld None = None"
    by (simp add: WeakGet_def)
  have nf2: "\<not> IsFriendlyActor UncachedShot TeamWorld (Some 4)"
    by (simp add: IsFriendlyActor_iff us un)
  have q2: "Qualifies UncachedShot TeamWorld 4"
    by (simp add: Qualifies_def nf2 un us)
  obtain p2 e2
    where o2: "OnOverlapBegin UncachedShot TeamWorld (Some 4) None NoSweep = (p2, e2)"
    by (cases "OnOverlapBegin UncachedShot TeamWorld (Some 4) None NoSweep") auto
  note hit2 = OnOverlapBegin_hit[OF q2 us(7) us(8) o2]
  have d2: "filter IsDamage e2 = [TakeDamage 4 15 None None]"
    using o2 q2
    by (auto simp add: OnOverlapBegin_def Qualifies_def HandleHit_def ApplyDamage_def
        SpawnImpactEffect_def Destroy_def EndPlay_def Let_def un us
        split: if_splits)
  show ?thesis
    using nt teams fs(1) nf hit1(1,2) d1 us(1) TeamWorld_teams(1,2) nf2 hit2(1) d2
    by (simp add: o1 o2)
qed

subsection \<open>Dispatch\<close>

lemma SpawnProjectileInternal_outcome:
  assumes "SpawnProjectileInternal c w cls n = (r, c', evs, aevs)"
  shows "(\<exists>P dir. r = Some P
            \<and> evs = [OnCooldownStateChanged True (FireCooldown c), OnProjectileFired P n dir]
            \<and> LastFireTime c' = TimeSeconds w)
         \<or> (\<exists>reason \<in> RejectionReasons. r = None \<and> evs = [OnFireBlocked reason n]
              \<and> LastFireTime c' = LastFireTime c)"
  using assms
  by (auto simp add: SpawnProjectileInternal_def RejectionReasons_def Let_def
      split: option.splits prod.splits if_splits bool.splits)

lemma SpawnProjectileInternal_config:
  assumes "SpawnProjectileInternal c w cls n = (r, c', evs, aevs)"
  shows "FireCooldown c' = FireCooldown c" and "ProjectileClassMap c' = ProjectileClassMap c"
    and "DefaultProjectileClass c' = DefaultProjectileClass c"
    and "bRespectAimBlocked c' = bRespectAimBlocked c"
    and "AimComponent c = None \<longrightarrow> AimComponent c' = None"
  using assms
  by (auto simp add: SpawnProjectileInternal_def Let_def
      split: option.splits prod.splits if_splits bool.splits)


lemma SpawnProjectileInternal_cooling:
  assumes "HasWorld w" and "Owner w = Some ow"
    and "TimeSeconds w - LastFireTime c < FireCooldown c"
  shows "SpawnProjectileInternal c w (Some k) n = (None, c, [OnFireBlocked OnCooldown n], [])"
  using assms by (simp add: SpawnProjectileInternal_def Let_def)

lemma SpawnProjectileInternal_not_cooling:
  assumes "\<not> TimeSeconds w - LastFireTime c < FireCooldown c"
  shows "OnFireBlocked OnCooldown n \<notin> set (fst (snd (snd (SpawnProjectileInternal c w cls n))))"
  using assms
  by (auto simp add: SpawnProjectileInternal_def Let_def
      split: option.splits prod.splits if_splits bool.splits)

lemma SpawnProjectileInternal_success:
  assumes "HasWorld w" and "Owner w = Some ow"
    and "\<not> TimeSeconds w - LastFireTime c < FireCooldown c"
    and "\<not> (bRespectAimBlocked c
            \<and> (case AimComponent c of Some a \<Rightarrow> bAimIsBlocked a | None \<Rightarrow> False))"
    and "\<forall>loc dir. SpawnActor w k loc dir \<noteq> None"
  shows "fst (SpawnProjectileInternal c w (Some k) n) \<noteq> None"
proof (cases "AimComponent c")
  case None
  obtain sp where sp:
    "SpawnActor w k (CalculateMuzzleLocation c w) (GetActorForwardVector w ow) = Some sp"
    using assms(5) by auto
  show ?thesis
    using assms(1-4) None sp by (simp add: SpawnProjectileInternal_def Let_def)
next
  case (Some a)
  obtain a1 ev d where r: "RequestAimUpdate a w = (a1, ev, d)"
    by (cases "RequestAimUpdate a w") auto
  obtain sp where sp:
    "SpawnActor w k (CalculateMuzzleLocation c w)
       (GetAimDirectionFromLocation a1 w (CalculateMuzzleLocation c w)) = Some sp"
    using assms(5) by auto
  show ?thesis
    using assms(1-4) Some r sp by (simp add: SpawnProjectileInternal_def Let_def)
qed

lemma SpawnProjectileInternal_fired:
  assumes "SpawnProjectileInternal c w cls n = (Some P, c', evs, aevs)"
  shows "\<exists>k ow Spawned dir.
           cls = Some k \<and> Owner w = Some ow \<and> HasWorld w
           \<and> dir = (case AimComponent c of
                      Some a \<Rightarrow>
                        GetAimDirectionFromLocation (fst (RequestAimUpdate a w)) w
                          (CalculateMuzzleLocation c w)
                    | None \<Rightarrow> GetActorForwardVector w ow)
           \<and> SpawnActor w k (CalculateMuzzleLocation c w) dir = Some Spawned
           \<and> P = (let P1 = InitializeProjectile Spawned w (Some ow) dir
                  in case ProjectileMovement P1 of
                       None \<Rightarrow> P1
                     | Some m \<Rightarrow>
                         P1\<lparr> ProjectileMovement :=
                               Some (m\<lparr> Velocity := VScale dir (ComponentInitialSpeed m) \<rparr>) \<rparr>)
           \<and> evs = [OnCooldownStateChanged True (FireCooldown c), OnProjectileFired P n dir]"
  using assms
  by (auto simp add: SpawnProjectileInternal_def Let_def
      split: option.splits prod.splits if_splits bool.splits)

lemma dispatch_outcome_by_class:
  assumes "FireProjectileClass c w cls = (r, c', evs, aevs)
           \<or> FireProjectile c w = (r, c', evs, aevs)"
  shows "(\<exists>P dir. r = Some P
            \<and> evs = [OnCooldownStateChanged True (FireCooldown c),
                     OnProjectileFired P NAME_None dir])
         \<or> (\<exists>reason \<in> RejectionReasons. r = None \<and> evs = [OnFireBlocked reason NAME_None])"
proof -
  from assms obtain k where "SpawnProjectileInternal c w k NAME_None = (r, c', evs, aevs)"
    by (auto simp add: FireProjectileClass_def FireProjectile_def)
  from SpawnProjectileInternal_outcome[OF this] show ?thesis by blast
qed

lemma dispatch_outcome_by_type:
  assumes "Owner w \<noteq> None"
  shows "\<exists>r c' evs aevs. FireProjectileByType c w n = Inr (r, c', evs, aevs)
           \<and> ((\<exists>P dir. r = Some P
                  \<and> evs = [OnCooldownStateChanged True (FireCooldown c),
                           OnProjectileFired P n dir])
               \<or> (\<exists>reason \<in> RejectionReasons. r = None \<and> evs = [OnFireBlocked reason n]))"
proof (cases "\<exists>k. ProjectileClassMap c n = Some (Some k)")
  case True
  then obtain k where k: "ProjectileClassMap c n = Some (Some k)" by auto
  obtain r c' evs aevs where s: "SpawnProjectileInternal c w (Some k) n = (r, c', evs, aevs)"
    by (cases "SpawnProjectileInternal c w (Some k) n") auto
  have "FireProjectileByType c w n = Inr (r, c', evs, aevs)"
    using k s by (simp add: FireProjectileByType_def)
  then show ?thesis using SpawnProjectileInternal_outcome[OF s] by blast
next
  case False
  then have "FireProjectileByType c w n
             = Inr (None, c, [OnFireBlocked NoProjectileClass n], [])"
    using assms by (auto simp add: FireProjectileByType_def split: option.splits)
  moreover have "NoProjectileClass \<in> RejectionReasons" by (simp add: RejectionReasons_def)
  ultimately show ?thesis by blast
qed

text \<open>
  Claim C4 says that every dispatch ends in one of two ways: a projectile and a fired event,
  or no projectile and exactly one blocked event with the attempted type name. The lemmas
  above give that for every dispatch by class or by default (the name is \<open>NAME_None\<close>) and
  for every dispatch by type on a component with an owner, and a returned projectile is the
  one the engine spawned, initialised and launched. It fails for \<open>FireProjectileByType\<close> on
  a component without owner when the map has no class for the name: the owner's name is
  read for the warning before \<open>BroadcastFireBlocked\<close> is reached, so the call ends in a null
  dereference with nothing broadcast and nothing returned. The sibling paths check the
  owner first: on the same component a dispatch by class, by default, or by a mapped type
  is rejected with \<open>SpawnFailed\<close>.
\<close>

theorem dispatch_without_owner:
  "(Owner w = None \<and> (ProjectileClassMap c n = None \<or> ProjectileClassMap c n = Some None)
      \<longrightarrow> FireProjectileByType c w n = Inl NullOwnerDereference)
   \<and> (Owner w = None
      \<longrightarrow> FireProjectileClass c w cls
            = (None, c, [OnFireBlocked SpawnFailed NAME_None], [])
          \<and> FireProjectile c w = (None, c, [OnFireBlocked SpawnFailed NAME_None], [])
          \<and> (ProjectileClassMap c n = Some (Some k)
              \<longrightarrow> FireProjectileByType c w n
                    = Inr (None, c, [OnFireBlocked SpawnFailed n], [])))"
proof (intro conjI impI)
  assume "Owner w = None \<and> (ProjectileClassMap c n = None \<or> ProjectileClassMap c n = Some None)"
  then show "FireProjectileByType c w n = Inl NullOwnerDereference"
    by (auto simp add: FireProjectileByType_def)
next
  assume o: "Owner w = None"
  have s: "\<And>x m. SpawnProjectileInternal c w x m = (None, c, [OnFireBlocked SpawnFailed m], [])"
    using o by (simp add: SpawnProjectileInternal_def split: bool.splits)
  show "FireProjectileClass c w cls = (None, c, [OnFireBlocked SpawnFailed NAME_None], [])"
    by (simp add: FireProjectileClass_def s)
  show "FireProjectile c w = (None, c, [OnFireBlocked SpawnFailed NAME_None], [])"
    by (simp add: FireProjectile_def FireProjectileClass_def s)
  assume "ProjectileClassMap c n = Some (Some k)"
  then show "FireProjectileByType c w n = Inr (None, c, [OnFireBlocked SpawnFailed n], [])"
    by (simp add: FireProjectileByType_def s)
qed

text \<open>
  Claim C2, amended. After a dispatch that fired at time T, the component's last fire time
  is T and its cooldown C is unchanged. A dispatch of a resolved projectile class, by a
  component with a world and an owner, at a time t with T < t < T + C returns no
  projectile, leaves the component as it is and broadcasts exactly one blocked event with
  reason \<open>OnCooldown\<close>. A dispatch at a time t with T + C \<le> t is never blocked with
  \<open>OnCooldown\<close>, and it returns a projectile when the component has a world and an
  owner, the class is resolved, the aim is not blocked (or blocked aim is not respected)
  and the spawn succeeds.
\<close>

theorem cooldown_gate:
  assumes "SpawnProjectileInternal c0 w0 cls0 n0 = (Some P, c, evs0, aevs0)"
  shows "LastFireTime c = TimeSeconds w0 \<and> FireCooldown c = FireCooldown c0
         \<and> (HasWorld w \<and> Owner w \<noteq> None
              \<and> TimeSeconds w0 < TimeSeconds w \<and> TimeSeconds w < TimeSeconds w0 + FireCooldown c
            \<longrightarrow> SpawnProjectileInternal c w (Some k) n
                  = (None, c, [OnFireBlocked OnCooldown n], [])
                \<and> (ProjectileClassMap c n = Some (Some k)
                    \<longrightarrow> FireProjectileByType c w n
                          = Inr (None, c, [OnFireBlocked OnCooldown n], [])))
         \<and> (TimeSeconds w0 + FireCooldown c \<le> TimeSeconds w
            \<longrightarrow> OnFireBlocked OnCooldown n
                  \<notin> set (fst (snd (snd (SpawnProjectileInternal c w cls n))))
                \<and> (HasWorld w \<and> Owner w \<noteq> None
                     \<and> \<not> (bRespectAimBlocked c
                           \<and> (case AimComponent c of Some a \<Rightarrow> bAimIsBlocked a
                                | None \<Rightarrow> False))
                     \<and> (\<forall>loc dir. SpawnActor w k loc dir \<noteq> None)
                    \<longrightarrow> fst (SpawnProjectileInternal c w (Some k) n) \<noteq> None
                        \<and> (ProjectileClassMap c n = Some (Some k)
                            \<longrightarrow> FireProjectileByType c w n
                                  = Inr (SpawnProjectileInternal c w (Some k) n))))"
proof (intro conjI impI)
  show lf: "LastFireTime c = TimeSeconds w0"
    using SpawnProjectileInternal_outcome[OF assms] by auto
  show "FireCooldown c = FireCooldown c0"
    by (rule SpawnProjectileInternal_config(1)[OF assms])
  {
    assume a: "HasWorld w \<and> Owner w \<noteq> None
              \<and> TimeSeconds w0 < TimeSeconds w \<and> TimeSeconds w < TimeSeconds w0 + FireCooldown c"
    then obtain ow where o: "Owner w = Some ow" and hw: "HasWorld w" by auto
    have t: "TimeSeconds w - LastFireTime c < FireCooldown c" using a lf by simp
    show s: "SpawnProjectileInternal c w (Some k) n
               = (None, c, [OnFireBlocked OnCooldown n], [])"
      by (rule SpawnProjectileInternal_cooling[OF hw o t])
    assume "ProjectileClassMap c n = Some (Some k)"
    then show "FireProjectileByType c w n = Inr (None, c, [OnFireBlocked OnCooldown n], [])"
      using s by (simp add: FireProjectileByType_def)
  }
  {
    assume a: "TimeSeconds w0 + FireCooldown c \<le> TimeSeconds w"
    have t: "\<not> TimeSeconds w - LastFireTime c < FireCooldown c" using a lf by simp
    show "OnFireBlocked OnCooldown n
                \<notin> set (fst (snd (snd (SpawnProjectileInternal c w cls n))))"
      by (rule SpawnProjectileInternal_not_cooling[OF t])
    assume b: "HasWorld w \<and> Owner w \<noteq> None
                     \<and> \<not> (bRespectAimBlocked c
                           \<and> (case AimComponent c of Some a \<Rightarrow> bAimIsBlocked a
                                | None \<Rightarrow> False))
                     \<and> (\<forall>loc dir. SpawnActor w k loc dir \<noteq> None)"
    then obtain ow where o: "Owner w = Some ow" and hw: "HasWorld w" by auto
    have nb: "\<not> (bRespectAimBlocked c
                \<and> (case AimComponent c of Some a \<Rightarrow> bAimIsBlocked a | None \<Rightarrow> False))"
      using b by simp
    have sp: "\<forall>loc dir. SpawnActor w k loc dir \<noteq> None" using b by simp
    show s: "fst (SpawnProjectileInternal c w (Some k) n) \<noteq> None"
      by (rule SpawnProjectileInternal_success[OF hw o t nb sp])
    assume "ProjectileClassMap c n = Some (Some k)"
    then show "FireProjectileByType c w n = Inr (SpawnProjectileInternal c w (Some k) n)"
      by (simp add: FireProjectileByType_def)
  }
qed

lemma AtTime_basic:
  "HasWorld (AtTime t)" "Owner (AtTime t) = Some 10" "TimeSeconds (AtTime t) = t"
  "\<forall>loc dir. SpawnActor (AtTime t) k loc dir \<noteq> None"
  by (simp_all add: AtTime_def QuietWorld_def)

lemma ReadyCombat_state:
  "FireCooldown ReadyCombat = 1 / 2" "LastFireTime ReadyCombat = - 1000"
  "AimComponent ReadyCombat = None" "ProjectileClassMap ReadyCombat ''Flame'' = Some (Some 1)"
  "ProjectileClassMap ReadyCombat ''Frost'' = None"
  by (simp_all add: ReadyCombat_def UAC_CombatComponent_ctor_def)

lemma ReadyCombat_fires:
  "\<exists>P evs aevs. SpawnProjectileInternal ReadyCombat (AtTime 0) (Some 1) ''Flame''
                   = (Some P, CoolingCombat, evs, aevs)"
proof -
  have ok: "fst (SpawnProjectileInternal ReadyCombat (AtTime 0) (Some 1) ''Flame'') \<noteq> None"
    by (rule SpawnProjectileInternal_success[OF AtTime_basic(1) AtTime_basic(2) _ _
          AtTime_basic(4)])
      (simp_all add: ReadyCombat_state AtTime_basic)
  have cc: "CoolingCombat
            = fst (snd (SpawnProjectileInternal ReadyCombat (AtTime 0) (Some 1) ''Flame''))"
    by (simp add: CoolingCombat_def)
  obtain r c evs aevs
    where e: "SpawnProjectileInternal ReadyCombat (AtTime 0) (Some 1) ''Flame''
              = (r, c, evs, aevs)"
    by (metis prod_cases4)
  show ?thesis using ok cc e by auto
qed

lemma CoolingCombat_state:
  "FireCooldown CoolingCombat = 1 / 2" "LastFireTime CoolingCombat = 0"
  "AimComponent CoolingCombat = None"
  "ProjectileClassMap CoolingCombat = ProjectileClassMap ReadyCombat"
proof -
  obtain P evs aevs
    where f: "SpawnProjectileInternal ReadyCombat (AtTime 0) (Some 1) ''Flame''
              = (Some P, CoolingCombat, evs, aevs)"
    using ReadyCombat_fires by blast
  show "FireCooldown CoolingCombat = 1 / 2"
    using SpawnProjectileInternal_config(1)[OF f] by (simp add: ReadyCombat_state)
  show "LastFireTime CoolingCombat = 0"
    using SpawnProjectileInternal_outcome[OF f] by (auto simp add: AtTime_basic)
  show "AimComponent CoolingCombat = None"
    using SpawnProjectileInternal_config(5)[OF f] by (simp add: ReadyCombat_state)
  show "ProjectileClassMap CoolingCombat = ProjectileClassMap ReadyCombat"
    by (rule SpawnProjectileInternal_config(2)[OF f])
qed

theorem cooldown_gate_witness:
  "FireProjectileByType ReadyCombat (AtTime 0) ''Flame''
     = Inr (SpawnProjectileInternal ReadyCombat (AtTime 0) (Some 1) ''Flame'')
   \<and> fst (SpawnProjectileInternal ReadyCombat (AtTime 0) (Some 1) ''Flame'') \<noteq> None
   \<and> CoolingCombat = fst (snd (SpawnProjectileInternal ReadyCombat (AtTime 0) (Some 1) ''Flame''))
   \<and> FireProjectileByType CoolingCombat (AtTime (3 / 10)) ''Flame''
       = Inr (None, CoolingCombat, [OnFireBlocked OnCooldown ''Flame''], [])
   \<and> FireProjectileByType CoolingCombat (AtTime (1 / 2)) ''Flame''
       = Inr (SpawnProjectileInternal CoolingCombat (AtTime (1 / 2)) (Some 1) ''Flame'')
   \<and> fst (SpawnProjectileInternal CoolingCombat (AtTime (1 / 2)) (Some 1) ''Flame'') \<noteq> None"
proof -
  obtain P evs aevs
    where f: "SpawnProjectileInternal ReadyCombat (AtTime 0) (Some 1) ''Flame''
              = (Some P, CoolingCombat, evs, aevs)"
    using ReadyCombat_fires by blast
  have flame: "FireProjectileByType ReadyCombat (AtTime 0) ''Flame''
     = Inr (SpawnProjectileInternal ReadyCombat (AtTime 0) (Some 1) ''Flame'')"
    by (simp add: FireProjectileByType_def ReadyCombat_state)
  have fired: "fst (SpawnProjectileInternal ReadyCombat (AtTime 0) (Some 1) ''Flame'') \<noteq> None"
    using f by simp
  have cc: "CoolingCombat
            = fst (snd (SpawnProjectileInternal ReadyCombat (AtTime 0) (Some 1) ''Flame''))"
    by (simp add: CoolingCombat_def)
  have m: "ProjectileClassMap CoolingCombat ''Flame'' = Some (Some 1)"
    by (simp add: CoolingCombat_state ReadyCombat_state)
  have inside: "FireProjectileByType CoolingCombat (AtTime (3 / 10)) ''Flame''
       = Inr (None, CoolingCombat, [OnFireBlocked OnCooldown ''Flame''], [])"
    using cooldown_gate[OF f, where w = "AtTime (3 / 10)" and k = 1 and n = "''Flame''"] m
    by (simp add: AtTime_basic CoolingCombat_state)
  have after: "FireProjectileByType CoolingCombat (AtTime (1 / 2)) ''Flame''
       = Inr (SpawnProjectileInternal CoolingCombat (AtTime (1 / 2)) (Some 1) ''Flame'')
       \<and> fst (SpawnProjectileInternal CoolingCombat (AtTime (1 / 2)) (Some 1) ''Flame'') \<noteq> None"
    using cooldown_gate[OF f, where w = "AtTime (1 / 2)" and k = 1 and n = "''Flame''"] m
    by (simp add: AtTime_basic CoolingCombat_state)
  show ?thesis using flame fired cc inside after by blast
qed

text \<open>
  The claim as stated rejects every dispatch inside the window with \<open>OnCooldown\<close>. The
  projectile class is checked before the cooldown: 0.3 seconds after a shot, with a cooldown
  of 0.5 seconds, a dispatch of the unmapped type \<open>Frost\<close> and a dispatch of a null class
  are both rejected with \<open>NoProjectileClass\<close>.
\<close>

theorem cooldown_gate_counterexample:
  "FireProjectileByType ReadyCombat (AtTime 0) ''Flame''
     = Inr (SpawnProjectileInternal ReadyCombat (AtTime 0) (Some 1) ''Flame'')
   \<and> fst (SpawnProjectileInternal ReadyCombat (AtTime 0) (Some 1) ''Flame'') \<noteq> None
   \<and> CoolingCombat = fst (snd (SpawnProjectileInternal ReadyCombat (AtTime 0) (Some 1) ''Flame''))
   \<and> TimeSeconds (AtTime 0) < TimeSeconds (AtTime (3 / 10))
   \<and> TimeSeconds (AtTime (3 / 10)) < TimeSeconds (AtTime 0) + FireCooldown CoolingCombat
   \<and> FireProjectileByType CoolingCombat (AtTime (3 / 10)) ''Frost''
       = Inr (None, CoolingCombat, [OnFireBlocked NoProjectileClass ''Frost''], [])
   \<and> FireProjectileClass CoolingCombat (AtTime (3 / 10)) None
       = (None, CoolingCombat, [OnFireBlocked NoProjectileClass NAME_None], [])"
proof -
  obtain P evs aevs
    where f: "SpawnProjectileInternal ReadyCombat (AtTime 0) (Some 1) ''Flame''
              = (Some P, CoolingCombat, evs, aevs)"
    using ReadyCombat_fires by blast
  have flame: "FireProjectileByType ReadyCombat (AtTime 0) ''Flame''
     = Inr (SpawnProjectileInternal ReadyCombat (AtTime 0) (Some 1) ''Flame'')"
    by (simp add: FireProjectileByType_def ReadyCombat_state)
  have fired: "fst (SpawnProjectileInternal ReadyCombat (AtTime 0) (Some 1) ''Flame'') \<noteq> None"
    using f by simp
  have frost: "FireProjectileByType CoolingCombat (AtTime (3 / 10)) ''Frost''
       = Inr (None, CoolingCombat, [OnFireBlocked NoProjectileClass ''Frost''], [])"
    by (simp add: FireProjectileByType_def CoolingCombat_state ReadyCombat_state AtTime_basic)
  have null: "FireProjectileClass CoolingCombat (AtTime (3 / 10)) None
       = (None, CoolingCombat, [OnFireBlocked NoProjectileClass NAME_None], [])"
    by (simp add: FireProjectileClass_def SpawnProjectileInternal_def AtTime_basic)
  have cc: "CoolingCombat
            = fst (snd (SpawnProjectileInternal ReadyCombat (AtTime 0) (Some 1) ''Flame''))"
    by (simp add: CoolingCombat_def)
  have t: "TimeSeconds (AtTime 0) < TimeSeconds (AtTime (3 / 10))
           \<and> TimeSeconds (AtTime (3 / 10)) < TimeSeconds (AtTime 0) + FireCooldown CoolingCombat"
    by (simp add: AtTime_basic CoolingCombat_state)
  show ?thesis
    using flame fired cc t frost null by blast
qed

lemma OwnerlessWorld_basic: "Owner OwnerlessWorld = None"
  by (simp add: OwnerlessWorld_def)

theorem dispatch_without_owner_witness:
  "FireProjectileByType ReadyCombat OwnerlessWorld ''Frost'' = Inl NullOwnerDereference
   \<and> FireProjectileClass ReadyCombat OwnerlessWorld (Some 1)
       = (None, ReadyCombat, [OnFireBlocked SpawnFailed NAME_None], [])
   \<and> FireProjectile ReadyCombat OwnerlessWorld
       = (None, ReadyCombat, [OnFireBlocked SpawnFailed NAME_None], [])
   \<and> FireProjectileByType ReadyCombat OwnerlessWorld ''Flame''
       = Inr (None, ReadyCombat, [OnFireBlocked SpawnFailed ''Flame''], [])"
proof -
  have a: "FireProjectileByType ReadyCombat OwnerlessWorld ''Frost'' = Inl NullOwnerDereference"
    using dispatch_without_owner[where w = OwnerlessWorld and c = ReadyCombat
        and n = "''Frost''"] OwnerlessWorld_basic ReadyCombat_state(5)
    by blast
  have b: "FireProjectileClass ReadyCombat OwnerlessWorld (Some 1)
       = (None, ReadyCombat, [OnFireBlocked SpawnFailed NAME_None], [])
     \<and> FireProjectile ReadyCombat OwnerlessWorld
       = (None, ReadyCombat, [OnFireBlocked SpawnFailed NAME_None], [])
     \<and> FireProjectileByType ReadyCombat OwnerlessWorld ''Flame''
       = Inr (None, ReadyCombat, [OnFireBlocked SpawnFailed ''Flame''], [])"
    using dispatch_without_owner[where w = OwnerlessWorld and c = ReadyCombat
        and n = "''Flame''" and k = 1 and cls = "Some 1"] OwnerlessWorld_basic
      ReadyCombat_state(4)
    by blast
  show ?thesis using a b by blast
qed

end
